theory Spec2Isabelle
  imports Complex_Main "HOL-Library.Multiset"
begin

section \<open>Responses\<close>

text \<open>
  A Date is a time, in milliseconds since the epoch, or invalid.
\<close>

datatype date = Time int | Invalid_Date

text \<open>
  The value handed to \<open>res.json\<close>. \<open>Date\<close> is a valid JavaScript Date (serialised as an ISO
  string), \<open>Obj\<close> an object literal with its keys in the order of the source.
\<close>

datatype json =
    Null
  | Integer int
  | Float real
  | Str string
  | Date int
  | Arr "json list"
  | Obj "(string \<times> json) list"

datatype response = Response (status: nat) (body: json)

text \<open>A Date read from a DATE column, as a response shows it: an invalid Date is null.\<close>

definition date_json :: "date \<Rightarrow> json" where
  "date_json d = (case d of Time t \<Rightarrow> Date t | Invalid_Date \<Rightarrow> Null)"

text \<open>The key of an instance, as a response shows it.\<close>

definition key_json :: "int option \<Rightarrow> json" where
  "key_json k = (case k of None \<Rightarrow> Null | Some n \<Rightarrow> Integer n)"

text \<open>Reading a property of an object.\<close>

fun member :: "string \<Rightarrow> json \<Rightarrow> json option" where
  "member k (Obj kvs) = map_of kvs k"
| "member k _ = None"

section \<open>Instances\<close>

text \<open>
  The instance \<open>Model.create\<close> returns. The key columns are declared without
  \<open>autoIncrement\<close>, so Sequelize does not write the key SQLite chose back into the
  instance: its \<open>ID\<close> stays null, while the stored row has the key.
\<close>

record reservation_instance =
  ID :: "int option"
  PassengerName :: string
  FlightID :: int
  createdAt :: int
  updatedAt :: int

text \<open>
  The instance of a flight holds its two times as Sequelize left them when they were
  set (see \<open>DATE_instance\<close> below).
\<close>

record flight_instance =
  ID :: "int option"
  ItineraryID :: int
  DepartureTime :: json
  ArrivalTime :: json
  AirplaneID :: int
  createdAt :: int
  updatedAt :: int

record airplane_instance =
  ID :: "int option"
  Name :: string
  Model :: string
  Capacity :: int
  createdAt :: int
  updatedAt :: int

section \<open>The tables of database.js\<close>

text \<open>
  Each Sequelize model of database.js is a record with the columns the model declares and
  the two timestamp columns Sequelize adds to every model. INTEGER columns are \<open>int\<close>,
  STRING columns are \<open>string\<close>, FLOAT columns are \<open>real\<close> (the routes only store and
  copy them, and every finite double is a real number), timestamps are the milliseconds
  since the epoch. A DATE column holds a time in milliseconds or, when the Date written
  to it was invalid, the text 'Invalid date', which reads back as an invalid Date.
\<close>

record airport =
  ID :: int
  Name :: string
  Latitude :: real
  Longitude :: real
  Timezone :: string
  createdAt :: int
  updatedAt :: int

record itinerary =
  ID :: int
  Code :: string
  OriginAirportID :: int
  DestinationAirportID :: int
  DurationMinutes :: int
  createdAt :: int
  updatedAt :: int

record airplane =
  ID :: int
  Name :: string
  Model :: string
  Capacity :: int
  createdAt :: int
  updatedAt :: int

record flight =
  ID :: int
  ItineraryID :: int
  DepartureTime :: date
  ArrivalTime :: date
  AirplaneID :: int
  createdAt :: int
  updatedAt :: int

record reservation =
  ID :: int
  PassengerName :: string
  FlightID :: int
  createdAt :: int
  updatedAt :: int

text \<open>
  The database: one list of rows per table, in rowid order. The tables carry the names
  Sequelize gives them.
\<close>

record store =
  Airports :: "airport list"
  Itineraries :: "itinerary list"
  Airplanes :: "airplane list"
  Flights :: "flight list"
  Reservations :: "reservation list"

text \<open>
  What a query with \<open>include\<close> returns: the row, and under each alias of a
  \<open>belongsTo\<close> association the joined row, or null (\<open>None\<close>) when the foreign key matches
  no row (the join is a left outer join).
\<close>

record itinerary_inc = itinerary +
  OriginAirport :: "airport option"
  DestinationAirport :: "airport option"

record flight_inc = flight +
  Itinerary :: "itinerary_inc option"
  Airplane :: "airplane option"

section \<open>Store queries\<close>

text \<open>
  The store answers every query: a failure of the database itself, which every handler
  answers with 500, is not modelled.
\<close>

text \<open>\<open>Model.findOne({ where: { ID } })\<close> on each table.\<close>

definition Airport_findOne :: "store \<Rightarrow> int \<Rightarrow> airport option" where
  "Airport_findOne st k = find (\<lambda>r. airport.ID r = k) (Airports st)"

definition Itinerary_findOne :: "store \<Rightarrow> int \<Rightarrow> itinerary option" where
  "Itinerary_findOne st k = find (\<lambda>r. itinerary.ID r = k) (Itineraries st)"

definition Airplane_findOne :: "store \<Rightarrow> int \<Rightarrow> airplane option" where
  "Airplane_findOne st k = find (\<lambda>r. airplane.ID r = k) (Airplanes st)"

definition Reservation_findOne :: "store \<Rightarrow> int \<Rightarrow> reservation option" where
  "Reservation_findOne st k = find (\<lambda>r. reservation.ID r = k) (Reservations st)"

text \<open>
  The \<open>include\<close> of an itinerary: \<open>OriginAirport\<close> and \<open>DestinationAirport\<close> joined on
  the two foreign keys.
\<close>

definition include_itinerary :: "store \<Rightarrow> itinerary \<Rightarrow> itinerary_inc" where
  "include_itinerary st r =
     \<lparr>itinerary.ID = itinerary.ID r, Code = Code r,
      OriginAirportID = OriginAirportID r,
      DestinationAirportID = DestinationAirportID r,
      DurationMinutes = DurationMinutes r,
      createdAt = itinerary.createdAt r, updatedAt = itinerary.updatedAt r,
      OriginAirport = Airport_findOne st (OriginAirportID r),
      DestinationAirport = Airport_findOne st (DestinationAirportID r)\<rparr>"

text \<open>
  The \<open>include\<close> of a flight, as both reservation routes write it: \<open>Itinerary\<close> (with its
  two airports) and \<open>Airplane\<close>.
\<close>

definition include_flight :: "store \<Rightarrow> flight \<Rightarrow> flight_inc" where
  "include_flight st r =
     \<lparr>flight.ID = flight.ID r, ItineraryID = ItineraryID r,
      DepartureTime = DepartureTime r, ArrivalTime = ArrivalTime r,
      AirplaneID = AirplaneID r,
      createdAt = flight.createdAt r, updatedAt = flight.updatedAt r,
      Itinerary = map_option (include_itinerary st) (Itinerary_findOne st (ItineraryID r)),
      Airplane = Airplane_findOne st (AirplaneID r)\<rparr>"

text \<open>\<open>Flights.findOne({ where: { ID }, include: [...] })\<close>.\<close>

definition Flights_findOne :: "store \<Rightarrow> int \<Rightarrow> flight_inc option" where
  "Flights_findOne st k =
     map_option (include_flight st) (find (\<lambda>r. flight.ID r = k) (Flights st))"

text \<open>\<open>Reservation.count({ where: { FlightID } })\<close>.\<close>

definition Reservation_count :: "store \<Rightarrow> int \<Rightarrow> int" where
  "Reservation_count st k =
     int (length (filter (\<lambda>r. reservation.FlightID r = k) (Reservations st)))"

text \<open>
  The key of a row inserted without one. \<open>ID\<close> is an INTEGER PRIMARY KEY, which SQLite
  fills with 1 on an empty table and with the largest key in use plus one otherwise.
\<close>

definition next_ID :: "int list \<Rightarrow> int" where
  "next_ID ks = (case ks of [] \<Rightarrow> 1 | k # ks' \<Rightarrow> fold max ks' k + 1)"

text \<open>
  \<open>Reservation.create({ PassengerName, FlightID })\<close> at the time \<open>now\<close>: the new row goes
  to the end of the table.
\<close>

definition Reservation_create ::
  "int \<Rightarrow> string \<Rightarrow> int \<Rightarrow> store \<Rightarrow> reservation_instance \<times> store" where
  "Reservation_create now name k st =
     (\<lparr>reservation_instance.ID = None, PassengerName = name, FlightID = k,
       createdAt = now, updatedAt = now\<rparr>,
      st\<lparr>Reservations := Reservations st @
           [\<lparr>reservation.ID = next_ID (map reservation.ID (Reservations st)),
             PassengerName = name, FlightID = k, createdAt = now, updatedAt = now\<rparr>]\<rparr>)"

section \<open>Request validation\<close>

text \<open>
  The validators of express-validator that the chains use, over ASCII strings.
  \<open>trim\<close> strips white space at both ends.
\<close>

definition isAlphanumeric :: "string \<Rightarrow> bool" where
  "isAlphanumeric s =
     (s \<noteq> [] \<and>
      list_all (\<lambda>c. c \<in> set (''0123456789'' @ ''ABCDEFGHIJKLMNOPQRSTUVWXYZ'' @
                              ''abcdefghijklmnopqrstuvwxyz'')) s)"

definition is_space :: "char \<Rightarrow> bool" where
  "is_space c = (c \<in> set [CHR '' '', CHR 0x09, CHR 0x0A, CHR 0x0B, CHR 0x0C, CHR 0x0D])"

definition trim :: "string \<Rightarrow> string" where
  "trim s = rev (dropWhile is_space (rev (dropWhile is_space s)))"

text \<open>
  \<open>check(field).notEmpty().withMessage(required).isInt({ min }).withMessage(invalid)\<close> on
  a number. \<open>isInt\<close> reads the number as JavaScript prints it: from \<open>10 ^ 21\<close> on that is
  the exponent form \<open>1e+21\<close>, which is not a string of digits.
\<close>

definition check_int :: "int option \<Rightarrow> int \<Rightarrow> string \<Rightarrow> string \<Rightarrow> string list" where
  "check_int v lo required invalid =
     (case v of
        None \<Rightarrow> [required, invalid]
      | Some n \<Rightarrow> if lo \<le> n \<and> n < 10 ^ 21 then [] else [invalid])"

text \<open>
  The body of a booking request, as \<open>bodyParser.json\<close> hands it over. A field the body
  lacks is \<open>None\<close>. The flight's key is a number with an integer value (the validators
  also let a string of digits pass, which the store reads as that number; such a body is
  not modelled).
\<close>

record reservation_body =
  PassengerName :: "string option"
  FlightID :: "int option"

text \<open>
  \<open>reservationValidationConstraints\<close> followed by \<open>validationResult\<close>: the messages of the
  validators that fail, or the fields as the handler reads them (the passenger name
  trimmed by the chain's sanitizer).
\<close>

definition reservationValidationConstraints :: "reservation_body \<Rightarrow> string list + string \<times> int" where
  "reservationValidationConstraints b =
     (let raw = (case reservation_body.PassengerName b of None \<Rightarrow> [] | Some s \<Rightarrow> s);
          name = trim raw;
          errors =
            (if raw = [] then [''Passenger name is required.''] else []) @
            (if isAlphanumeric name then []
             else [''Passenger name should contain only alphanumeric characters.'']) @
            (if 2 \<le> length name then []
             else [''Passenger name should contain at least 2 characters.'']) @
            check_int (reservation_body.FlightID b) 1 ''Flight ID is required.''
              ''Flight ID must be a valid positive, non-zero integer.''
      in case (errors, reservation_body.FlightID b) of
           ([], Some k) \<Rightarrow> Inr (name, k)
         | _ \<Rightarrow> Inl errors)"

section \<open>POST /reservation/create\<close>

definition error_body :: "string \<Rightarrow> json" where
  "error_body msg = Obj [(''error'', Str msg)]"

text \<open>
  The body of a 422 answered by \<open>validationResult\<close>. Each element of \<open>errors\<close> stands for
  one error object of express-validator, of which only its \<open>msg\<close> is kept.
\<close>

definition errors_body :: "string list \<Rightarrow> json" where
  "errors_body msgs = Obj [(''errors'', Arr (map Str msgs))]"

text \<open>
  The object literal of the success response. Reading a property of a null association
  throws a TypeError, which is \<open>None\<close> here.
\<close>

definition created_reservation_json :: "reservation_instance \<Rightarrow> flight_inc \<Rightarrow> json option" where
  "created_reservation_json reservation existingFlight =
     (case Itinerary existingFlight of None \<Rightarrow> None | Some itin \<Rightarrow>
      case OriginAirport itin of None \<Rightarrow> None | Some origin \<Rightarrow>
      case DestinationAirport itin of None \<Rightarrow> None | Some destination \<Rightarrow>
      case Airplane existingFlight of None \<Rightarrow> None | Some plane \<Rightarrow>
      Some (Obj
        [(''ID'', key_json (reservation_instance.ID reservation)),
         (''PassengerName'', Str (reservation_instance.PassengerName reservation)),
         (''Flight'', Obj
            [(''ID'', Integer (flight.ID existingFlight)),
             (''DepartureTime'', date_json (flight.DepartureTime existingFlight)),
             (''ArrivalTime'', date_json (flight.ArrivalTime existingFlight)),
             (''Itinerary'', Obj
                [(''ID'', Integer (itinerary.ID itin)),
                 (''Code'', Str (Code itin)),
                 (''OriginAirport'', Obj
                    [(''ID'', Integer (airport.ID origin)),
                     (''Name'', Str (airport.Name origin)),
                     (''Latitude'', Float (Latitude origin)),
                     (''Longitude'', Float (Longitude origin)),
                     (''Timezone'', Str (Timezone origin))]),
                 (''DestinationAirport'', Obj
                    [(''ID'', Integer (airport.ID destination)),
                     (''Name'', Str (airport.Name destination)),
                     (''Latitude'', Float (Latitude destination)),
                     (''Longitude'', Float (Longitude destination)),
                     (''Timezone'', Str (Timezone destination))]),
                 (''DurationMinutes'', Integer (DurationMinutes itin))]),
             (''Airplane'', Obj
                [(''ID'', Integer (airplane.ID plane)),
                 (''Name'', Str (airplane.Name plane)),
                 (''Model'', Str (Model plane)),
                 (''Capacity'', Integer (Capacity plane))])]),
         (''updatedAt'', Date (reservation_instance.updatedAt reservation)),
         (''createdAt'', Date (reservation_instance.createdAt reservation))]))"

text \<open>
  The handler. Every exception thrown inside its \<open>try\<close> ends in the \<open>catch\<close>, which
  answers 500; what was written to the store before the exception stays written.
\<close>

definition reservation_create :: "int \<Rightarrow> reservation_body \<Rightarrow> store \<Rightarrow> response \<times> store" where
  "reservation_create now b st =
     (case reservationValidationConstraints b of
        Inl errors \<Rightarrow> (Response 422 (errors_body errors), st)
      | Inr (passengerName, flightID) \<Rightarrow>
          (case Flights_findOne st flightID of
             None \<Rightarrow> (Response 409 (error_body ''No such flight exists.''), st)
           | Some existingFlight \<Rightarrow>
               (let reservationsCount = Reservation_count st flightID in
                case Airplane existingFlight of
                  None \<Rightarrow> (Response 500 (error_body ''Failed to create reservation.''), st)
                | Some plane \<Rightarrow>
                    if reservationsCount \<ge> Capacity plane
                    then (Response 409 (error_body ''The flight is already full.''), st)
                    else
                      (let (reservation, st') = Reservation_create now passengerName flightID st in
                       case created_reservation_json reservation existingFlight of
                         None \<Rightarrow>
                           (Response 500 (error_body ''Failed to create reservation.''), st')
                       | Some r \<Rightarrow>
                           (Response 200
                              (Obj [(''message'', Str ''Reservation created successfully''),
                                    (''reservation'', r)]),
                            st')))))"

text \<open>
  The handler again, cut at its three \<open>await\<close>s: \<open>Flights.findOne\<close>,
  \<open>Reservation.count\<close> and \<open>Reservation.create\<close>. Between two of them the event loop
  may run a step of another request. \<open>Received\<close> is a request not yet started,
  \<open>Counting\<close> one whose flight was found, \<open>Inserting\<close> one that passed the capacity
  check, \<open>Responded\<close> one that was answered.
\<close>

datatype booking =
    Received reservation_body
  | Counting string int flight_inc
  | Inserting string int flight_inc
  | Responded response

fun booking_step :: "int \<Rightarrow> booking \<Rightarrow> store \<Rightarrow> booking \<times> store" where
  "booking_step now (Received b) st =
     (case reservationValidationConstraints b of
        Inl errors \<Rightarrow> (Responded (Response 422 (errors_body errors)), st)
      | Inr (passengerName, flightID) \<Rightarrow>
          (case Flights_findOne st flightID of
             None \<Rightarrow> (Responded (Response 409 (error_body ''No such flight exists.'')), st)
           | Some existingFlight \<Rightarrow> (Counting passengerName flightID existingFlight, st)))"
| "booking_step now (Counting passengerName flightID existingFlight) st =
     (let reservationsCount = Reservation_count st flightID in
      case Airplane existingFlight of
        None \<Rightarrow> (Responded (Response 500 (error_body ''Failed to create reservation.'')), st)
      | Some plane \<Rightarrow>
          if reservationsCount \<ge> Capacity plane
          then (Responded (Response 409 (error_body ''The flight is already full.'')), st)
          else (Inserting passengerName flightID existingFlight, st))"
| "booking_step now (Inserting passengerName flightID existingFlight) st =
     (let (reservation, st') = Reservation_create now passengerName flightID st in
      case created_reservation_json reservation existingFlight of
        None \<Rightarrow> (Responded (Response 500 (error_body ''Failed to create reservation.'')), st')
      | Some r \<Rightarrow>
          (Responded
             (Response 200
                (Obj [(''message'', Str ''Reservation created successfully''),
                      (''reservation'', r)])),
           st'))"
| "booking_step now (Responded r) st = (Responded r, st)"

text \<open>
  Requests in flight against one store. A schedule names, step by step, the time and
  the request the event loop resumes.
\<close>

fun interleave :: "(int \<times> nat) list \<Rightarrow> booking list \<Rightarrow> store \<Rightarrow> booking list \<times> store" where
  "interleave [] bs st = (bs, st)"
| "interleave ((now, i) # sched) bs st =
     (if i < length bs
      then (let (b', st') = booking_step now (bs ! i) st in interleave sched (bs[i := b']) st')
      else interleave sched bs st)"

text \<open>The status a request was answered with, if it was answered.\<close>

fun booking_status :: "booking \<Rightarrow> nat option" where
  "booking_status (Responded r) = Some (status r)"
| "booking_status _ = None"

text \<open>Requests handled one after the other, each to its response.\<close>

fun serial :: "(int \<times> reservation_body) list \<Rightarrow> store \<Rightarrow> response list \<times> store" where
  "serial [] st = ([], st)"
| "serial ((now, b) # reqs) st =
     (let (r, st') = reservation_create now b st;
          (rs, st'') = serial reqs st'
      in (r # rs, st''))"

section \<open>DELETE /reservation/delete\<close>

text \<open>
  The body of a cancel request: the value under \<open>ID\<close>, if the body has that key, and
  the body's other keys.
\<close>

record delete_body =
  ID :: "int option"
  other_keys :: "string list"

text \<open>\<open>reservation.destroy()\<close>: DELETE FROM Reservations WHERE ID = the instance's key.\<close>

definition Reservation_destroy :: "reservation \<Rightarrow> store \<Rightarrow> store" where
  "Reservation_destroy reservation st =
     st\<lparr>Reservations :=
          filter (\<lambda>r. reservation.ID r \<noteq> reservation.ID reservation) (Reservations st)\<rparr>"

text \<open>
  The handler. \<open>!ID\<close> holds when the body has no \<open>ID\<close> and when its \<open>ID\<close> is 0;
  \<open>Object.keys(req.body)\<close> is then \<open>ID\<close> and the other keys.
\<close>

definition reservation_delete :: "delete_body \<Rightarrow> store \<Rightarrow> response \<times> store" where
  "reservation_delete b st =
     (case delete_body.ID b of
        None \<Rightarrow> (Response 400 (error_body ''ID is required in the body.''), st)
      | Some k \<Rightarrow>
          if k = 0 then (Response 400 (error_body ''ID is required in the body.''), st)
          else if length (''ID'' # other_keys b) \<noteq> 1
          then (Response 400 (error_body ''Only the ID should be provided in the body.''), st)
          else
            (case Reservation_findOne st k of
               None \<Rightarrow> (Response 404 (error_body ''Reservation not found.''), st)
             | Some reservation \<Rightarrow>
                 (Response 200 (Obj [(''message'', Str ''Reservation deleted successfully.'')]),
                  Reservation_destroy reservation st)))"

section \<open>GET /reservation/flight/:ID\<close>

text \<open>\<open>Reservation.findAll({ where: { FlightID } })\<close>, in rowid order.\<close>

definition Reservation_findAll :: "store \<Rightarrow> int \<Rightarrow> reservation list" where
  "Reservation_findAll st k = filter (\<lambda>r. reservation.FlightID r = k) (Reservations st)"

text \<open>The object literal the route maps over the reservations.\<close>

definition listed_reservation_json :: "reservation \<Rightarrow> flight_inc \<Rightarrow> json option" where
  "listed_reservation_json reservation existingFlight =
     (case Itinerary existingFlight of None \<Rightarrow> None | Some itin \<Rightarrow>
      case OriginAirport itin of None \<Rightarrow> None | Some origin \<Rightarrow>
      case DestinationAirport itin of None \<Rightarrow> None | Some destination \<Rightarrow>
      case Airplane existingFlight of None \<Rightarrow> None | Some plane \<Rightarrow>
      Some (Obj
        [(''ID'', Integer (reservation.ID reservation)),
         (''PassengerName'', Str (reservation.PassengerName reservation)),
         (''Flight'', Obj
            [(''ID'', Integer (flight.ID existingFlight)),
             (''DepartureTime'', date_json (flight.DepartureTime existingFlight)),
             (''ArrivalTime'', date_json (flight.ArrivalTime existingFlight)),
             (''Itinerary'', Obj
                [(''ID'', Integer (itinerary.ID itin)),
                 (''Code'', Str (Code itin)),
                 (''OriginAirport'', Obj
                    [(''ID'', Integer (airport.ID origin)),
                     (''Name'', Str (airport.Name origin)),
                     (''Latitude'', Float (Latitude origin)),
                     (''Longitude'', Float (Longitude origin)),
                     (''Timezone'', Str (Timezone origin))]),
                 (''DestinationAirport'', Obj
                    [(''ID'', Integer (airport.ID destination)),
                     (''Name'', Str (airport.Name destination)),
                     (''Latitude'', Float (Latitude destination)),
                     (''Longitude'', Float (Longitude destination)),
                     (''Timezone'', Str (Timezone destination))]),
                 (''DurationMinutes'', Integer (DurationMinutes itin))]),
             (''Airplane'', Obj
                [(''ID'', Integer (airplane.ID plane)),
                 (''Name'', Str (airplane.Name plane)),
                 (''Model'', Str (Model plane)),
                 (''Capacity'', Integer (Capacity plane))])]),
         (''updatedAt'', Date (reservation.updatedAt reservation)),
         (''createdAt'', Date (reservation.createdAt reservation))]))"

text \<open>
  The handler. The path parameter is checked by \<open>isInt({ min: 1 })\<close>. The callback of
  \<open>map\<close> runs once per reservation; if it throws, the \<open>catch\<close> answers 500. (The
  \<open>include\<close> of \<open>findAll\<close> is left out: the response reads the rows' own columns and
  \<open>existingFlight\<close> only.)
\<close>

definition reservation_flight :: "int \<Rightarrow> store \<Rightarrow> response" where
  "reservation_flight k st =
     (if \<not> 1 \<le> k then Response 422 (errors_body [''Invalid value''])
      else
        (case Flights_findOne st k of
           None \<Rightarrow> Response 409 (error_body ''No such flight exists.'')
         | Some existingFlight \<Rightarrow>
             (let reservations = Reservation_findAll st (flight.ID existingFlight) in
              case those (map (\<lambda>reservation. listed_reservation_json reservation existingFlight)
                            reservations) of
                None \<Rightarrow> Response 500 (error_body ''Internal server error.'')
              | Some rs \<Rightarrow>
                  Response 200
                    (Obj [(''message'', Str ''Reservations retrieved successfully''),
                          (''reservations'', Arr rs)]))))"

section \<open>POST /flight/create\<close>

text \<open>
  A time in the body of a flight request, as \<open>bodyParser.json\<close> hands it over: a number
  with an integer value, or a string. The handler compares the two times itself, so what
  kind of value each is matters.
\<close>

datatype scalar = Num int | Text string

text \<open>
  The strings \<open>isInt\<close> accepts, \<open>/^[-+]?[0-9]+$/\<close>, and the number JavaScript reads such a
  string as.
\<close>

definition is_digit :: "char \<Rightarrow> bool" where
  "is_digit c = (c \<in> set ''0123456789'')"

definition digits_value :: "string \<Rightarrow> int" where
  "digits_value s = foldl (\<lambda>n c. 10 * n + (int (of_char c) - 48)) 0 s"

definition is_int_string :: "string \<Rightarrow> bool" where
  "is_int_string s =
     (case s of
        [] \<Rightarrow> False
      | c # cs \<Rightarrow>
          if c = CHR ''-'' \<or> c = CHR ''+'' then cs \<noteq> [] \<and> list_all is_digit cs
          else list_all is_digit s)"

definition int_string_value :: "string \<Rightarrow> int" where
  "int_string_value s =
     (case s of
        [] \<Rightarrow> 0
      | c # cs \<Rightarrow>
          if c = CHR ''-'' then - digits_value cs
          else if c = CHR ''+'' then digits_value cs
          else digits_value s)"

text \<open>
  \<open>check(field).notEmpty().withMessage(required).isInt({ min }).withMessage(invalid)\<close> on
  a number or a string: a string passes when it is a string of digits, with or without
  a sign, that JavaScript reads as a number not below \<open>min\<close>.
\<close>

definition check_scalar :: "scalar option \<Rightarrow> int \<Rightarrow> string \<Rightarrow> string \<Rightarrow> string list" where
  "check_scalar v lo required invalid =
     (case v of
        None \<Rightarrow> [required, invalid]
      | Some (Num n) \<Rightarrow> if lo \<le> n \<and> n < 10 ^ 21 then [] else [invalid]
      | Some (Text s) \<Rightarrow>
          (if s = [] then [required] else []) @
          (if is_int_string s \<and> lo \<le> int_string_value s then [] else [invalid]))"

text \<open>
  JavaScript's \<open>a <= b\<close>. Two strings are compared as strings, code unit by code unit,
  a proper prefix being the smaller. In every other case both sides are read as numbers
  (a string that is not a string of digits is never compared here: the validators have
  refused it). JavaScript reads a string of more than 15 digits as the nearest double;
  here it is read exactly.
\<close>

fun string_le :: "string \<Rightarrow> string \<Rightarrow> bool" where
  "string_le [] ys = True"
| "string_le (x # xs) [] = False"
| "string_le (x # xs) (y # ys) =
     (if x = y then string_le xs ys else (of_char x :: nat) < of_char y)"

definition to_number :: "scalar \<Rightarrow> int option" where
  "to_number v =
     (case v of
        Num n \<Rightarrow> Some n
      | Text s \<Rightarrow> if is_int_string s then Some (int_string_value s) else None)"

definition js_le :: "scalar \<Rightarrow> scalar \<Rightarrow> bool" where
  "js_le a b =
     (case (a, b) of
        (Text x, Text y) \<Rightarrow> string_le x y
      | _ \<Rightarrow>
          (case (to_number a, to_number b) of
             (Some x, Some y) \<Rightarrow> x \<le> y
           | _ \<Rightarrow> False))"

text \<open>
  The body of a flight request, and the chain of \<open>flightValidationConstraints\<close> with
  \<open>validationResult\<close>. The two keys are numbers, as in a booking request.
\<close>

record flight_body =
  ItineraryID :: "int option"
  DepartureTime :: "scalar option"
  ArrivalTime :: "scalar option"
  AirplaneID :: "int option"

definition flightValidationConstraints ::
  "flight_body \<Rightarrow> string list + int \<times> scalar \<times> scalar \<times> int" where
  "flightValidationConstraints b =
     (let errors =
            check_int (flight_body.ItineraryID b) 1 ''Itinerary ID is required.''
              ''Itinerary ID must be a valid positive, non-zero integer.'' @
            check_scalar (flight_body.DepartureTime b) 0 ''Departure time is required.''
              ''Departure time must be a valid positive integer.'' @
            check_scalar (flight_body.ArrivalTime b) 0 ''Arrival time is required.''
              ''Arrival time must be a valid positive integer.'' @
            check_int (flight_body.AirplaneID b) 1 ''Airplane ID is required.''
              ''Airplane ID must be a valid positive, non-zero integer.''
      in case (errors, flight_body.ItineraryID b, flight_body.DepartureTime b,
               flight_body.ArrivalTime b, flight_body.AirplaneID b) of
           ([], Some i, Some d, Some a, Some p) \<Rightarrow> Inr (i, d, a, p)
         | _ \<Rightarrow> Inl errors)"

text \<open>
  What Sequelize makes of a value set on a DATE attribute. A value that is not falsy
  becomes \<open>new Date(moment(value))\<close>: for a number the Date of that many milliseconds,
  which is invalid beyond 8.64e15; for a string whatever date \<open>moment\<close> parses it to,
  which depends on the string, the engine and the time zone and is a parameter here. The
  falsy values, 0 and the empty string, stay as they are in the instance; written to the
  column, 0 is the epoch.
\<close>

definition new_Date :: "int \<Rightarrow> date" where
  "new_Date n = (if - 8640000000000000 \<le> n \<and> n \<le> 8640000000000000 then Time n
                 else Invalid_Date)"

definition DATE_column :: "(string \<Rightarrow> date) \<Rightarrow> scalar \<Rightarrow> date" where
  "DATE_column moment v = (case v of Num n \<Rightarrow> new_Date n | Text s \<Rightarrow> moment s)"

definition DATE_instance :: "(string \<Rightarrow> date) \<Rightarrow> scalar \<Rightarrow> json" where
  "DATE_instance moment v =
     (case v of
        Num n \<Rightarrow> if n = 0 then Integer 0 else date_json (new_Date n)
      | Text s \<Rightarrow> if s = [] then Str [] else date_json (moment s))"

text \<open>\<open>Flights.create({ ItineraryID, DepartureTime, ArrivalTime, AirplaneID })\<close>.\<close>

definition Flights_create ::
  "(string \<Rightarrow> date) \<Rightarrow> int \<Rightarrow> int \<Rightarrow> scalar \<Rightarrow> scalar \<Rightarrow> int \<Rightarrow> store \<Rightarrow>
     flight_instance \<times> store" where
  "Flights_create moment now i d a p st =
     (\<lparr>flight_instance.ID = None, ItineraryID = i,
       DepartureTime = DATE_instance moment d, ArrivalTime = DATE_instance moment a,
       AirplaneID = p, createdAt = now, updatedAt = now\<rparr>,
      st\<lparr>Flights := Flights st @
           [\<lparr>flight.ID = next_ID (map flight.ID (Flights st)), ItineraryID = i,
             DepartureTime = DATE_column moment d, ArrivalTime = DATE_column moment a,
             AirplaneID = p, createdAt = now, updatedAt = now\<rparr>]\<rparr>)"

text \<open>
  The handler. Line 517, \<open>ArrivalTime <= DepartureTime\<close>, compares the two values of the
  body as JavaScript does.
\<close>

definition flight_create ::
  "(string \<Rightarrow> date) \<Rightarrow> int \<Rightarrow> flight_body \<Rightarrow> store \<Rightarrow> response \<times> store" where
  "flight_create moment now b st =
     (case flightValidationConstraints b of
        Inl errors \<Rightarrow> (Response 422 (errors_body errors), st)
      | Inr (itineraryID, departureTime, arrivalTime, airplaneID) \<Rightarrow>
          (case Itinerary_findOne st itineraryID of
             None \<Rightarrow> (Response 409 (error_body ''Invalid itinerary ID.''), st)
           | Some existingItinerary \<Rightarrow>
               (case Airplane_findOne st airplaneID of
                  None \<Rightarrow> (Response 409 (error_body ''Invalid airplane ID.''), st)
                | Some existingAirplane \<Rightarrow>
                    if js_le arrivalTime departureTime
                    then (Response 422
                            (error_body ''Arrival time must be after departure time.''), st)
                    else
                      (let (flight, st') =
                             Flights_create moment now itineraryID departureTime arrivalTime
                               airplaneID st
                       in (Response 200
                             (Obj [(''message'', Str ''Flight created successfully''),
                                   (''flight'', Obj
                                      [(''id'', key_json (flight_instance.ID flight)),
                                       (''itineraryID'',
                                        Integer (flight_instance.ItineraryID flight)),
                                       (''departureTime'', flight_instance.DepartureTime flight),
                                       (''arrivalTime'', flight_instance.ArrivalTime flight),
                                       (''airplaneID'',
                                        Integer (flight_instance.AirplaneID flight)),
                                       (''updatedAt'', Date (flight_instance.updatedAt flight)),
                                       (''createdAt'', Date (flight_instance.createdAt flight))])]),
                           st')))))"

section \<open>POST /airplane/create\<close>

record airplane_body =
  name :: "string option"
  model :: "string option"
  capacity :: "int option"

text \<open>
  \<open>check(field).notEmpty().withMessage(required).trim().isAlphanumeric().withMessage(invalid)\<close>:
  the messages, and the trimmed value the handler reads.
\<close>

definition check_alphanumeric :: "string option \<Rightarrow> string \<Rightarrow> string \<Rightarrow> string list \<times> string" where
  "check_alphanumeric v required invalid =
     (let raw = (case v of None \<Rightarrow> [] | Some s \<Rightarrow> s); t = trim raw
      in ((if raw = [] then [required] else []) @ (if isAlphanumeric t then [] else [invalid]),
          t))"

definition airplaneValidationConstraints :: "airplane_body \<Rightarrow> string list + string \<times> string \<times> int" where
  "airplaneValidationConstraints b =
     (let (e1, n) = check_alphanumeric (name b) ''Name is required.''
                      ''Name should contain only alphanumeric characters.'';
          (e2, m) = check_alphanumeric (model b) ''Model is required.''
                      ''Model should contain only alphanumeric characters.'';
          errors = e1 @ e2 @
            check_int (capacity b) 1 ''Capacity is required.''
              ''Capacity must be a valid positive, non-zero integer.''
      in case (errors, capacity b) of
           ([], Some c) \<Rightarrow> Inr (n, m, c)
         | _ \<Rightarrow> Inl errors)"

definition Airplane_create ::
  "int \<Rightarrow> string \<Rightarrow> string \<Rightarrow> int \<Rightarrow> store \<Rightarrow> airplane_instance \<times> store" where
  "Airplane_create now n m c st =
     (\<lparr>airplane_instance.ID = None, Name = n, Model = m, Capacity = c,
       createdAt = now, updatedAt = now\<rparr>,
      st\<lparr>Airplanes := Airplanes st @
           [\<lparr>airplane.ID = next_ID (map airplane.ID (Airplanes st)), Name = n, Model = m,
             Capacity = c, createdAt = now, updatedAt = now\<rparr>]\<rparr>)"

text \<open>
  The handler. Its uniqueness query names the column \<open>name\<close>; SQLite matches column
  names without regard to case, so the query reads the column \<open>Name\<close>.
\<close>

definition airplane_create :: "int \<Rightarrow> airplane_body \<Rightarrow> store \<Rightarrow> response \<times> store" where
  "airplane_create now b st =
     (case airplaneValidationConstraints b of
        Inl errors \<Rightarrow> (Response 422 (errors_body errors), st)
      | Inr (n, m, c) \<Rightarrow>
          (case find (\<lambda>r. airplane.Name r = n) (Airplanes st) of
             Some existingAirplane \<Rightarrow>
               (Response 409 (error_body ''Airplane name already exists.''), st)
           | None \<Rightarrow>
               (let (airplane, st') = Airplane_create now n m c st
                in (Response 200
                      (Obj [(''message'', Str ''Airplane created successfully''),
                            (''airplane'', Obj
                               [(''id'', key_json (airplane_instance.ID airplane)),
                                (''name'', Str (airplane_instance.Name airplane)),
                                (''model'', Str (airplane_instance.Model airplane)),
                                (''capacity'', Integer (airplane_instance.Capacity airplane)),
                                (''updatedAt'', Date (airplane_instance.updatedAt airplane)),
                                (''createdAt'', Date (airplane_instance.createdAt airplane))])]),
                    st'))))"

section \<open>Properties of a store\<close>

text \<open>The PRIMARY KEY constraints of database.js: no table holds a key twice.\<close>

definition primary_keys :: "store \<Rightarrow> bool" where
  "primary_keys st =
     (distinct (map airport.ID (Airports st)) \<and>
      distinct (map itinerary.ID (Itineraries st)) \<and>
      distinct (map airplane.ID (Airplanes st)) \<and>
      distinct (map flight.ID (Flights st)) \<and>
      distinct (map reservation.ID (Reservations st)))"

text \<open>
  The stored rows a flight's foreign keys lead to: its itinerary, the itinerary's origin
  and destination airports, and its airplane.
\<close>

definition flight_chain ::
  "store \<Rightarrow> flight \<Rightarrow> itinerary \<Rightarrow> airport \<Rightarrow> airport \<Rightarrow> airplane \<Rightarrow> bool" where
  "flight_chain st f it oa da ap =
     (f \<in> set (Flights st) \<and>
      it \<in> set (Itineraries st) \<and> itinerary.ID it = flight.ItineraryID f \<and>
      oa \<in> set (Airports st) \<and> airport.ID oa = OriginAirportID it \<and>
      da \<in> set (Airports st) \<and> airport.ID da = DestinationAirportID it \<and>
      ap \<in> set (Airplanes st) \<and> airplane.ID ap = flight.AirplaneID f)"

text \<open>The number of reservation rows bound to a flight.\<close>

definition reserved :: "store \<Rightarrow> int \<Rightarrow> nat" where
  "reserved st k = length (filter (\<lambda>r. reservation.FlightID r = k) (Reservations st))"

text \<open>
  The capacity invariant: no flight has more reservations than the airplane its
  \<open>AirplaneID\<close> names has seats.
\<close>

definition capacity_invariant :: "store \<Rightarrow> bool" where
  "capacity_invariant st =
     (\<forall>f \<in> set (Flights st). \<forall>ap \<in> set (Airplanes st).
        airplane.ID ap = flight.AirplaneID f \<longrightarrow> int (reserved st (flight.ID f)) \<le> Capacity ap)"

section \<open>The confirmation format of the specification\<close>

text \<open>
  The nested record of the specification's external interface, written from its
  wording: \<open>{ID, PassengerName, Flight: {ID, DepartureTime, ArrivalTime, Itinerary: {ID,
  Code, OriginAirport: {ID, Name, Latitude, Longitude, Timezone}, DestinationAirport: {the
  same shape}, DurationMinutes}, Airplane: {ID, Name, Model, Capacity}}, updatedAt,
  createdAt}\<close>, filled from stored rows.
\<close>

definition spec_airport_record :: "airport \<Rightarrow> json" where
  "spec_airport_record a =
     Obj [(''ID'', Integer (airport.ID a)), (''Name'', Str (airport.Name a)),
          (''Latitude'', Float (Latitude a)), (''Longitude'', Float (Longitude a)),
          (''Timezone'', Str (Timezone a))]"

definition spec_flight_record ::
  "flight \<Rightarrow> itinerary \<Rightarrow> airport \<Rightarrow> airport \<Rightarrow> airplane \<Rightarrow> json" where
  "spec_flight_record f it oa da ap =
     Obj [(''ID'', Integer (flight.ID f)),
          (''DepartureTime'', date_json (flight.DepartureTime f)),
          (''ArrivalTime'', date_json (flight.ArrivalTime f)),
          (''Itinerary'',
             Obj [(''ID'', Integer (itinerary.ID it)), (''Code'', Str (Code it)),
                  (''OriginAirport'', spec_airport_record oa),
                  (''DestinationAirport'', spec_airport_record da),
                  (''DurationMinutes'', Integer (DurationMinutes it))]),
          (''Airplane'',
             Obj [(''ID'', Integer (airplane.ID ap)), (''Name'', Str (airplane.Name ap)),
                  (''Model'', Str (Model ap)), (''Capacity'', Integer (Capacity ap))])]"

definition spec_reservation_record ::
  "reservation \<Rightarrow> flight \<Rightarrow> itinerary \<Rightarrow> airport \<Rightarrow> airport \<Rightarrow> airplane \<Rightarrow> json" where
  "spec_reservation_record r f it oa da ap =
     Obj [(''ID'', Integer (reservation.ID r)),
          (''PassengerName'', Str (reservation.PassengerName r)),
          (''Flight'', spec_flight_record f it oa da ap),
          (''updatedAt'', Date (reservation.updatedAt r)),
          (''createdAt'', Date (reservation.createdAt r))]"

section \<open>An example store\<close>

text \<open>
  Two airports, one itinerary, two airplanes of capacity 2 and 1, and three flights:
  flight 1 on the first airplane, flight 2 on the second, and flight 3 whose
  \<open>AirplaneID\<close> matches no airplane. No reservations yet.
\<close>

definition heathrow :: airport where
  "heathrow = \<lparr>airport.ID = 1, Name = ''Heathrow'', Latitude = 51.47, Longitude = -0.45,
                Timezone = ''GMT+0'', createdAt = 10, updatedAt = 10\<rparr>"

definition kennedy :: airport where
  "kennedy = \<lparr>airport.ID = 2, Name = ''Kennedy'', Latitude = 40.64, Longitude = -73.78,
               Timezone = ''GMT-5'', createdAt = 20, updatedAt = 20\<rparr>"

definition transatlantic :: itinerary where
  "transatlantic = \<lparr>itinerary.ID = 1, Code = ''LHRJFK'', OriginAirportID = 1,
                     DestinationAirportID = 2, DurationMinutes = 480,
                     createdAt = 30, updatedAt = 30\<rparr>"

definition alpha :: airplane where
  "alpha = \<lparr>airplane.ID = 1, Name = ''Alpha'', Model = ''A320'', Capacity = 2,
             createdAt = 40, updatedAt = 40\<rparr>"

definition bravo :: airplane where
  "bravo = \<lparr>airplane.ID = 2, Name = ''Bravo'', Model = ''C172'', Capacity = 1,
             createdAt = 41, updatedAt = 41\<rparr>"

definition flight1 :: flight where
  "flight1 = \<lparr>flight.ID = 1, ItineraryID = 1, DepartureTime = Time 1000, ArrivalTime = Time 2000,
               AirplaneID = 1, createdAt = 50, updatedAt = 50\<rparr>"

definition flight2 :: flight where
  "flight2 = \<lparr>flight.ID = 2, ItineraryID = 1, DepartureTime = Time 3000, ArrivalTime = Time 4000,
               AirplaneID = 2, createdAt = 51, updatedAt = 51\<rparr>"

definition flight3 :: flight where
  "flight3 = \<lparr>flight.ID = 3, ItineraryID = 1, DepartureTime = Time 5000, ArrivalTime = Time 6000,
               AirplaneID = 9, createdAt = 52, updatedAt = 52\<rparr>"

definition example_store :: store where
  "example_store =
     \<lparr>Airports = [heathrow, kennedy], Itineraries = [transatlantic],
      Airplanes = [alpha, bravo], Flights = [flight1, flight2, flight3],
      Reservations = []\<rparr>"

definition ada :: reservation_body where
  "ada = \<lparr>PassengerName = Some ''Ada'', FlightID = Some 2\<rparr>"

definition bob :: reservation_body where
  "bob = \<lparr>PassengerName = Some ''Bob'', FlightID = Some 2\<rparr>"

text \<open>The example store after Ada has booked flight 2 at time 100.\<close>

definition ada_row :: reservation where
  "ada_row = \<lparr>reservation.ID = 1, PassengerName = ''Ada'', FlightID = 2,
               createdAt = 100, updatedAt = 100\<rparr>"

definition booked_store :: store where
  "booked_store = example_store\<lparr>Reservations := [ada_row]\<rparr>"

text \<open>
  A flight request that names stored rows and gives its times as strings of digits: it
  arrives, at 9, before it departs, at 10.
\<close>

definition string_flight :: flight_body where
  "string_flight = \<lparr>flight_body.ItineraryID = Some 1, DepartureTime = Some (Text ''10''),
                     ArrivalTime = Some (Text ''9''), AirplaneID = Some 2\<rparr>"

text \<open>
  Two booking requests for flight 2 that arrive together: each is resumed after the
  other at every \<open>await\<close>.
\<close>

definition alternating :: "(int \<times> nat) list" where
  "alternating = [(100, 0), (101, 1), (102, 0), (103, 1), (104, 0), (105, 1)]"

section \<open>Lookups by key\<close>

lemma find_key_distinct:
  "distinct (map key xs) \<Longrightarrow> x \<in> set xs \<Longrightarrow> find (\<lambda>r. key r = key x) xs = Some x"
  by (induction xs) auto

lemma find_key_absent:
  "k \<notin> key ` set xs \<Longrightarrow> find (\<lambda>r. key r = k) xs = None"
  by (induction xs) auto

lemma find_key_present:
  "k \<in> key ` set xs \<Longrightarrow> \<exists>x. find (\<lambda>r. key r = k) xs = Some x \<and> x \<in> set xs \<and> key x = k"
  by (induction xs) auto

lemma filter_key_remove1:
  "distinct (map key xs) \<Longrightarrow> r \<in> set xs \<Longrightarrow> filter (\<lambda>x. key x \<noteq> key r) xs = remove1 r xs"
proof (induction xs)
  case Nil
  then show ?case by simp
next
  case (Cons x xs)
  show ?case
  proof (cases "x = r")
    case True
    then have "key r \<notin> key ` set xs" using Cons.prems by simp
    then have "\<forall>y \<in> set xs. key y \<noteq> key r" by (metis imageI)
    then have "filter (\<lambda>x. key x \<noteq> key r) xs = xs" by (simp add: filter_id_conv)
    with True show ?thesis by simp
  next
    case False
    then have "r \<in> set xs" using Cons.prems by simp
    moreover have "key x \<noteq> key r" using Cons.prems \<open>r \<in> set xs\<close> by force
    ultimately show ?thesis using Cons False by simp
  qed
qed

lemma those_map_Some: "those (map (\<lambda>x. Some (g x)) xs) = Some (map g xs)"
  by (induction xs) auto

section \<open>Fresh keys\<close>

lemma next_ID_greater: "k \<in> set ks \<Longrightarrow> k < next_ID ks"
proof (cases ks)
  case Nil
  then show "k \<in> set ks \<Longrightarrow> k < next_ID ks" by simp
next
  case (Cons x xs)
  assume "k \<in> set ks"
  then have "k \<le> Max (set (x # xs))" using Cons by (intro Max_ge) auto
  then show "k < next_ID ks"
    using Cons by (simp add: next_ID_def Max.set_eq_fold [symmetric])
qed

lemma next_ID_fresh: "next_ID ks \<notin> set ks"
  using next_ID_greater [of "next_ID ks" ks] by auto

lemma next_ID_positive: "\<forall>k \<in> set ks. 1 \<le> k \<Longrightarrow> 1 \<le> next_ID ks"
proof (cases ks)
  case Nil
  then show ?thesis by (simp add: next_ID_def)
next
  case (Cons x xs)
  assume "\<forall>k \<in> set ks. 1 \<le> k"
  then have "1 \<le> x" using Cons by simp
  moreover have "x < next_ID ks" using next_ID_greater [of x ks] Cons by simp
  ultimately show ?thesis by simp
qed

section \<open>Validated requests\<close>

lemma validated_booking:
  "reservationValidationConstraints b = Inr (pn, k) \<Longrightarrow>
     reservation_body.FlightID b = Some k \<and> 1 \<le> k \<and> k < 10 ^ 21"
  by (auto simp: reservationValidationConstraints_def check_int_def Let_def
           split: list.splits option.splits if_splits)

lemma ada_valid: "reservationValidationConstraints ada = Inr (''Ada'', 2)"
  by (simp add: reservationValidationConstraints_def ada_def trim_def is_space_def
        isAlphanumeric_def check_int_def)

lemma bob_valid: "reservationValidationConstraints bob = Inr (''Bob'', 2)"
  by (simp add: reservationValidationConstraints_def bob_def trim_def is_space_def
        isAlphanumeric_def check_int_def)

lemma ada_valid_for:
  "1 \<le> k \<Longrightarrow> k < 10 ^ 21 \<Longrightarrow>
   reservationValidationConstraints (ada\<lparr>reservation_body.FlightID := Some k\<rparr>) = Inr (''Ada'', k)"
  by (simp add: reservationValidationConstraints_def ada_def trim_def is_space_def
        isAlphanumeric_def check_int_def)

text \<open>
  A key of \<open>10 ^ 21\<close> is printed \<open>1e+21\<close> and refused by \<open>isInt\<close>: the request is
  answered 422.
\<close>

lemma big_key_refused:
  "reservation_create now (ada\<lparr>reservation_body.FlightID := Some (10 ^ 21)\<rparr>) st =
     (Response 422
        (errors_body [''Flight ID must be a valid positive, non-zero integer.'']), st)"
  by (simp add: reservation_create_def reservationValidationConstraints_def ada_def trim_def
        is_space_def isAlphanumeric_def check_int_def)

section \<open>What the handlers read and write\<close>

lemma Reservation_count_reserved: "Reservation_count st k = int (reserved st k)"
  by (simp add: Reservation_count_def reserved_def)

lemma booking_with_airplane:
  assumes "reservationValidationConstraints b = Inr (pn, k)"
    and "find (\<lambda>r. flight.ID r = k) (Flights st) = Some f"
    and "Airplane_findOne st (flight.AirplaneID f) = Some ap"
  shows "reservation_create now b st =
           (if Capacity ap \<le> int (reserved st k)
            then (Response 409 (error_body ''The flight is already full.''), st)
            else
              (case created_reservation_json (fst (Reservation_create now pn k st))
                      (include_flight st f) of
                 None \<Rightarrow> (Response 500 (error_body ''Failed to create reservation.''),
                           snd (Reservation_create now pn k st))
               | Some r \<Rightarrow>
                   (Response 200 (Obj [(''message'', Str ''Reservation created successfully''),
                                       (''reservation'', r)]),
                    snd (Reservation_create now pn k st))))"
  using assms
  by (simp add: reservation_create_def Flights_findOne_def include_flight_def
        Reservation_count_reserved split_beta)

lemma Reservation_create_store:
  "snd (Reservation_create now pn k st) =
     st\<lparr>Reservations := Reservations st @
          [\<lparr>reservation.ID = next_ID (map reservation.ID (Reservations st)),
            PassengerName = pn, FlightID = k, createdAt = now, updatedAt = now\<rparr>]\<rparr>"
  by (simp add: Reservation_create_def)

lemma primary_keys_Reservation_create:
  "primary_keys st \<Longrightarrow> primary_keys (snd (Reservation_create now pn k st))"
  using next_ID_fresh [of "map reservation.ID (Reservations st)"]
  by (simp add: primary_keys_def Reservation_create_store)

lemma flight_chain_Reservations:
  "flight_chain (st\<lparr>Reservations := rs\<rparr>) f it oa da ap = flight_chain st f it oa da ap"
  by (simp add: flight_chain_def)

lemma chain_lookups:
  assumes "primary_keys st" and "flight_chain st f it oa da ap"
  shows "find (\<lambda>r. flight.ID r = flight.ID f) (Flights st) = Some f"
    and "Itinerary_findOne st (flight.ItineraryID f) = Some it"
    and "Airport_findOne st (OriginAirportID it) = Some oa"
    and "Airport_findOne st (DestinationAirportID it) = Some da"
    and "Airplane_findOne st (flight.AirplaneID f) = Some ap"
proof -
  have k: "itinerary.ID it = flight.ItineraryID f" "airport.ID oa = OriginAirportID it"
    "airport.ID da = DestinationAirportID it" "airplane.ID ap = flight.AirplaneID f"
    using assms(2) by (simp_all add: flight_chain_def)
  have m: "f \<in> set (Flights st)" "it \<in> set (Itineraries st)" "oa \<in> set (Airports st)"
    "da \<in> set (Airports st)" "ap \<in> set (Airplanes st)"
    using assms(2) by (simp_all add: flight_chain_def)
  have d: "distinct (map flight.ID (Flights st))" "distinct (map itinerary.ID (Itineraries st))"
    "distinct (map airport.ID (Airports st))" "distinct (map airplane.ID (Airplanes st))"
    using assms(1) by (simp_all add: primary_keys_def)
  show "find (\<lambda>r. flight.ID r = flight.ID f) (Flights st) = Some f"
    using d(1) m(1) by (rule find_key_distinct)
  show "Itinerary_findOne st (flight.ItineraryID f) = Some it"
    using find_key_distinct [OF d(2) m(2)] by (simp only: Itinerary_findOne_def k)
  show "Airport_findOne st (OriginAirportID it) = Some oa"
    using find_key_distinct [OF d(3) m(3)] by (simp only: Airport_findOne_def k)
  show "Airport_findOne st (DestinationAirportID it) = Some da"
    using find_key_distinct [OF d(3) m(4)] by (simp only: Airport_findOne_def k)
  show "Airplane_findOne st (flight.AirplaneID f) = Some ap"
    using find_key_distinct [OF d(4) m(5)] by (simp only: Airplane_findOne_def k)
qed

lemma created_json_chain:
  assumes "primary_keys st" and "flight_chain st f it oa da ap"
  shows "created_reservation_json r (include_flight st f) =
           Some (Obj [(''ID'', key_json (reservation_instance.ID r)),
                      (''PassengerName'', Str (reservation_instance.PassengerName r)),
                      (''Flight'', spec_flight_record f it oa da ap),
                      (''updatedAt'', Date (reservation_instance.updatedAt r)),
                      (''createdAt'', Date (reservation_instance.createdAt r))])"
  using chain_lookups [OF assms]
  by (simp add: created_reservation_json_def include_flight_def include_itinerary_def
        spec_flight_record_def spec_airport_record_def)

text \<open>A booking that finds every row and room: the answer and the store.\<close>

lemma booking_succeeds:
  assumes "reservationValidationConstraints b = Inr (pn, k)"
    and "primary_keys st" and "flight_chain st f it oa da ap" and "flight.ID f = k"
    and "int (reserved st k) < Capacity ap"
  shows "status (fst (reservation_create now b st)) = 200"
    and "Option.bind (member ''reservation'' (body (fst (reservation_create now b st))))
           (member ''Flight'') = Some (spec_flight_record f it oa da ap)"
    and "snd (reservation_create now b st) =
           st\<lparr>Reservations := Reservations st @
                [\<lparr>reservation.ID = next_ID (map reservation.ID (Reservations st)),
                  PassengerName = pn, FlightID = k, createdAt = now, updatedAt = now\<rparr>]\<rparr>"
  using booking_with_airplane [OF assms(1), of st f ap now]
    chain_lookups(1,5) [OF assms(2,3)] assms(4,5)
  by (simp_all add: created_json_chain [OF assms(2,3)] Reservation_create_store)

text \<open>A booking that finds the flight full.\<close>

lemma booking_full:
  assumes "reservationValidationConstraints b = Inr (pn, k)"
    and "primary_keys st" and "flight_chain st f it oa da ap" and "flight.ID f = k"
    and "\<not> int (reserved st k) < Capacity ap"
  shows "reservation_create now b st =
           (Response 409 (error_body ''The flight is already full.''), st)"
  using booking_with_airplane [OF assms(1), of st f ap now]
    chain_lookups(1,5) [OF assms(2,3)] assms(4,5)
  by simp

lemma listed_json_chain:
  assumes "primary_keys st" and "flight_chain st f it oa da ap"
  shows "listed_reservation_json r (include_flight st f) =
           Some (spec_reservation_record r f it oa da ap)"
  using chain_lookups [OF assms]
  by (simp add: listed_reservation_json_def include_flight_def include_itinerary_def
        spec_reservation_record_def spec_flight_record_def spec_airport_record_def)

lemma listing_chain:
  assumes "primary_keys st" and "flight_chain st f it oa da ap" and "1 \<le> flight.ID f"
  shows "reservation_flight (flight.ID f) st =
           Response 200
             (Obj [(''message'', Str ''Reservations retrieved successfully''),
                   (''reservations'',
                    Arr (map (\<lambda>r. spec_reservation_record r f it oa da ap)
                           (filter (\<lambda>r. reservation.FlightID r = flight.ID f)
                              (Reservations st))))])"
proof -
  have f: "Flights_findOne st (flight.ID f) = Some (include_flight st f)"
    using chain_lookups(1) [OF assms(1,2)] by (simp add: Flights_findOne_def)
  have i: "flight.ID (include_flight st f) = flight.ID f"
    by (simp add: include_flight_def)
  show ?thesis
    using assms(3)
    by (simp add: reservation_flight_def f i Reservation_findAll_def
          listed_json_chain [OF assms(1,2)] those_map_Some)
qed

lemma cancel_found:
  assumes "k \<noteq> 0" and "k \<in> reservation.ID ` set (Reservations st)"
  shows "reservation_delete \<lparr>ID = Some k, other_keys = []\<rparr> st =
           (Response 200 (Obj [(''message'', Str ''Reservation deleted successfully.'')]),
            st\<lparr>Reservations := filter (\<lambda>r. reservation.ID r \<noteq> k) (Reservations st)\<rparr>)"
proof -
  obtain r where "find (\<lambda>r. reservation.ID r = k) (Reservations st) = Some r"
    "reservation.ID r = k"
    using find_key_present [OF assms(2)] by blast
  then show ?thesis
    using assms(1)
    by (simp add: reservation_delete_def Reservation_findOne_def Reservation_destroy_def)
qed

lemma cancel_missing:
  assumes "k \<noteq> 0" and "k \<notin> reservation.ID ` set (Reservations st)"
  shows "reservation_delete \<lparr>ID = Some k, other_keys = []\<rparr> st =
           (Response 404 (error_body ''Reservation not found.''), st)"
  using assms
  by (simp add: reservation_delete_def Reservation_findOne_def find_key_absent)

section \<open>The example store\<close>

lemma example_keys: "primary_keys example_store"
  by (simp add: primary_keys_def example_store_def heathrow_def kennedy_def transatlantic_def
        alpha_def bravo_def flight1_def flight2_def flight3_def)

lemma example_chain:
  "flight_chain example_store flight2 transatlantic heathrow kennedy bravo"
  by (simp add: flight_chain_def example_store_def heathrow_def kennedy_def transatlantic_def
        bravo_def flight2_def)

lemma example_reserved: "reserved example_store 2 = 0"
  by (simp add: reserved_def example_store_def)

lemma example_next_ID: "next_ID (map reservation.ID (Reservations example_store)) = 1"
  by (simp add: next_ID_def example_store_def)

section \<open>Booking a flight that is not stored\<close>

text \<open>
  Claim C3. A booking request that passes the route's validators and whose FlightID is
  the key of no row of Flights is answered 409 'No such flight exists.', and the store
  after the request is the store before it: no Reservation row is created.
\<close>

theorem booking_unknown_flight:
  assumes "reservationValidationConstraints b = Inr (pn, k)"
    and "k \<notin> flight.ID ` set (Flights st)"
  shows "reservation_create now b st =
           (Response 409 (error_body ''No such flight exists.''), st)"
  using assms by (simp add: reservation_create_def Flights_findOne_def find_key_absent)

theorem booking_unknown_flight_witness:
  "reservationValidationConstraints (ada\<lparr>reservation_body.FlightID := Some 9999\<rparr>) =
     Inr (''Ada'', 9999) \<and>
   9999 \<notin> flight.ID ` set (Flights example_store) \<and>
   reservation_create 100 (ada\<lparr>reservation_body.FlightID := Some 9999\<rparr>) example_store =
     (Response 409 (error_body ''No such flight exists.''), example_store)"
proof -
  have v: "reservationValidationConstraints (ada\<lparr>reservation_body.FlightID := Some 9999\<rparr>) =
             Inr (''Ada'', 9999)"
    by (simp add: ada_valid_for)
  have a: "9999 \<notin> flight.ID ` set (Flights example_store)"
    by (simp add: example_store_def flight1_def flight2_def flight3_def)
  show ?thesis using v a booking_unknown_flight [OF v a, of 100] by simp
qed

section \<open>Booking a flight whose airplane is gone\<close>

text \<open>
  Claim C8. When the stored flight's AirplaneID is the key of no row of Airplanes, the
  \<open>Airplane\<close> association of the flight found is null, the capacity check throws on
  \<open>existingFlight.Airplane.Capacity\<close>, and the \<open>catch\<close> answers 500 'Failed to create
  reservation.'; the store is unchanged, so no Reservation row is created.
\<close>

theorem booking_dangling_airplane:
  assumes "reservationValidationConstraints b = Inr (pn, k)"
    and "distinct (map flight.ID (Flights st))"
    and "f \<in> set (Flights st)" and "flight.ID f = k"
    and "flight.AirplaneID f \<notin> airplane.ID ` set (Airplanes st)"
  shows "reservation_create now b st =
           (Response 500 (error_body ''Failed to create reservation.''), st)"
proof -
  have "find (\<lambda>r. flight.ID r = k) (Flights st) = Some f"
    using find_key_distinct [of flight.ID "Flights st" f] assms by simp
  then show ?thesis
    using assms
    by (simp add: reservation_create_def Flights_findOne_def include_flight_def
          Airplane_findOne_def find_key_absent)
qed

theorem booking_dangling_airplane_witness:
  "reservationValidationConstraints (ada\<lparr>reservation_body.FlightID := Some 3\<rparr>) =
     Inr (''Ada'', 3) \<and>
   distinct (map flight.ID (Flights example_store)) \<and>
   flight3 \<in> set (Flights example_store) \<and> flight.ID flight3 = 3 \<and>
   flight.AirplaneID flight3 \<notin> airplane.ID ` set (Airplanes example_store) \<and>
   reservation_create 100 (ada\<lparr>reservation_body.FlightID := Some 3\<rparr>) example_store =
     (Response 500 (error_body ''Failed to create reservation.''), example_store)"
proof -
  have v: "reservationValidationConstraints (ada\<lparr>reservation_body.FlightID := Some 3\<rparr>) =
             Inr (''Ada'', 3)"
    by (simp add: ada_valid_for)
  have d: "distinct (map flight.ID (Flights example_store))"
    by (simp add: example_store_def flight1_def flight2_def flight3_def)
  have m: "flight3 \<in> set (Flights example_store)"
    by (simp add: example_store_def)
  have i: "flight.ID flight3 = 3"
    by (simp add: flight3_def)
  have a: "flight.AirplaneID flight3 \<notin> airplane.ID ` set (Airplanes example_store)"
    by (simp add: example_store_def flight3_def alpha_def bravo_def)
  show ?thesis using v d m i a booking_dangling_airplane [OF v d m i a, of 100] by simp
qed

section \<open>Listing a flight without reservations\<close>

text \<open>
  Claim C9. For a stored flight (its key a positive integer, as the route's parameter
  check demands) to which no Reservation row is bound, the listing answers 200 with an
  empty \<open>reservations\<close> array. This holds whatever the flight's associations are: the
  callback of \<open>map\<close> never runs on an empty array.
\<close>

theorem empty_listing:
  assumes "1 \<le> k" and "k \<in> flight.ID ` set (Flights st)"
    and "k \<notin> reservation.FlightID ` set (Reservations st)"
  shows "reservation_flight k st =
           Response 200 (Obj [(''message'', Str ''Reservations retrieved successfully''),
                              (''reservations'', Arr [])])"
proof -
  obtain f where f: "find (\<lambda>r. flight.ID r = k) (Flights st) = Some f" "flight.ID f = k"
    using find_key_present [OF assms(2)] by blast
  have "filter (\<lambda>r. reservation.FlightID r = k) (Reservations st) = []"
    using assms(3) by (auto simp: filter_empty_conv)
  then show ?thesis
    using assms(1) f
    by (simp add: reservation_flight_def Flights_findOne_def Reservation_findAll_def
          include_flight_def)
qed

theorem empty_listing_witness:
  "(1::int) \<le> 3 \<and> 3 \<in> flight.ID ` set (Flights example_store) \<and>
   3 \<notin> reservation.FlightID ` set (Reservations example_store) \<and>
   reservation_flight 3 example_store =
     Response 200 (Obj [(''message'', Str ''Reservations retrieved successfully''),
                        (''reservations'', Arr [])])"
proof -
  have a: "(1::int) \<le> 3" by simp
  have b: "3 \<in> flight.ID ` set (Flights example_store)"
    by (simp add: example_store_def flight1_def flight2_def flight3_def)
  have c: "3 \<notin> reservation.FlightID ` set (Reservations example_store)"
    by (simp add: example_store_def)
  show ?thesis using a b c empty_listing [OF a b c] by simp
qed

section \<open>Airplanes have seats\<close>

text \<open>
  The only route that writes the Airplanes table inserts rows of Capacity 1 or more.
\<close>

lemma airplane_create_capacity:
  assumes "\<forall>a \<in> set (Airplanes st). 1 \<le> Capacity a"
  shows "\<forall>a \<in> set (Airplanes (snd (airplane_create now b st))). 1 \<le> Capacity a"
proof (cases "airplaneValidationConstraints b")
  case (Inl errors)
  then show ?thesis using assms by (simp add: airplane_create_def)
next
  case (Inr v)
  obtain n m c where v: "v = (n, m, c)" by (cases v)
  have "1 \<le> c"
    using Inr v
    by (auto simp: airplaneValidationConstraints_def check_int_def Let_def split_beta
             split: list.splits option.splits if_splits)
  then show ?thesis
    using assms Inr v
    by (auto simp: airplane_create_def Airplane_create_def Let_def split: option.splits)
qed

section \<open>The admission boundary\<close>

text \<open>
  Claim C1. For a validated booking request for a stored flight whose airplane row
  exists, a Reservation row bound to the flight is created if and only if the number of
  rows already bound to it is below the airplane's Capacity. When there is room the new
  row is appended and nothing else changes; when there is none, the answer is 409 'The
  flight is already full.' and the store is unchanged. With a complete chain of itinerary
  and airports the answer is 200 exactly when there is room. A flight without
  reservations whose airplane has Capacity 1 or more is admitted.
\<close>

theorem booking_admission:
  assumes "reservationValidationConstraints b = Inr (pn, k)"
    and "primary_keys st"
    and "f \<in> set (Flights st)" and "flight.ID f = k"
    and "ap \<in> set (Airplanes st)" and "airplane.ID ap = flight.AirplaneID f"
  shows "((reserved (snd (reservation_create now b st)) k = reserved st k + 1) =
            (int (reserved st k) < Capacity ap)) \<and>
         (int (reserved st k) < Capacity ap \<longrightarrow>
            snd (reservation_create now b st) =
              st\<lparr>Reservations := Reservations st @
                   [\<lparr>reservation.ID = next_ID (map reservation.ID (Reservations st)),
                     PassengerName = pn, FlightID = k, createdAt = now, updatedAt = now\<rparr>]\<rparr>) \<and>
         (\<not> int (reserved st k) < Capacity ap \<longrightarrow>
            reservation_create now b st =
              (Response 409 (error_body ''The flight is already full.''), st)) \<and>
         (flight_chain st f it oa da ap \<longrightarrow>
            (status (fst (reservation_create now b st)) = 200) =
              (int (reserved st k) < Capacity ap)) \<and>
         (reserved st k = 0 \<and> 1 \<le> Capacity ap \<longrightarrow>
            reserved (snd (reservation_create now b st)) k = 1)"
proof -
  have d: "distinct (map flight.ID (Flights st))" "distinct (map airplane.ID (Airplanes st))"
    using assms(2) by (simp_all add: primary_keys_def)
  have f: "find (\<lambda>r. flight.ID r = k) (Flights st) = Some f"
    using find_key_distinct [OF d(1) assms(3)] assms(4) by simp
  have "find (\<lambda>r. airplane.ID r = airplane.ID ap) (Airplanes st) = Some ap"
    using d(2) assms(5) by (rule find_key_distinct)
  then have ap: "Airplane_findOne st (flight.AirplaneID f) = Some ap"
    using assms(6) by (simp add: Airplane_findOne_def)
  note eq = booking_with_airplane [OF assms(1) f ap, of now]
  have 1: "(reserved (snd (reservation_create now b st)) k = reserved st k + 1) =
            (int (reserved st k) < Capacity ap)"
    by (auto simp: eq Reservation_create_store reserved_def split: option.splits)
  have 2: "int (reserved st k) < Capacity ap \<longrightarrow>
            snd (reservation_create now b st) =
              st\<lparr>Reservations := Reservations st @
                   [\<lparr>reservation.ID = next_ID (map reservation.ID (Reservations st)),
                     PassengerName = pn, FlightID = k, createdAt = now, updatedAt = now\<rparr>]\<rparr>"
    by (auto simp: eq Reservation_create_store split: option.splits)
  have 3: "\<not> int (reserved st k) < Capacity ap \<longrightarrow>
            reservation_create now b st =
              (Response 409 (error_body ''The flight is already full.''), st)"
    by (simp add: eq)
  have 4: "flight_chain st f it oa da ap \<longrightarrow>
            (status (fst (reservation_create now b st)) = 200) =
              (int (reserved st k) < Capacity ap)"
  proof
    assume c: "flight_chain st f it oa da ap"
    show "(status (fst (reservation_create now b st)) = 200) =
              (int (reserved st k) < Capacity ap)"
      by (simp add: eq created_json_chain [OF assms(2) c])
  qed
  have 5: "reserved st k = 0 \<and> 1 \<le> Capacity ap \<longrightarrow>
            reserved (snd (reservation_create now b st)) k = 1"
    using 1 by auto
  show ?thesis using 1 2 3 4 5 by blast
qed

theorem booking_admission_witness:
  "reservationValidationConstraints ada = Inr (''Ada'', 2) \<and>
   primary_keys example_store \<and>
   flight2 \<in> set (Flights example_store) \<and> flight.ID flight2 = 2 \<and>
   bravo \<in> set (Airplanes example_store) \<and> airplane.ID bravo = flight.AirplaneID flight2 \<and>
   flight_chain example_store flight2 transatlantic heathrow kennedy bravo \<and>
   reserved example_store 2 = 0 \<and> Capacity bravo = 1 \<and>
   status (fst (reservation_create 100 ada example_store)) = 200 \<and>
   reserved (snd (reservation_create 100 ada example_store)) 2 = 1"
proof -
  have m: "flight2 \<in> set (Flights example_store)" "bravo \<in> set (Airplanes example_store)"
    by (simp_all add: example_store_def)
  have i: "flight.ID flight2 = 2" "airplane.ID bravo = flight.AirplaneID flight2"
    "Capacity bravo = 1"
    by (simp_all add: flight2_def bravo_def)
  note t = booking_admission [OF ada_valid example_keys m(1) i(1) m(2) i(2), of 100
      transatlantic heathrow kennedy]
  from t have "flight_chain example_store flight2 transatlantic heathrow kennedy bravo \<longrightarrow>
      (status (fst (reservation_create 100 ada example_store)) = 200) =
        (int (reserved example_store 2) < Capacity bravo)"
    by blast
  then have a: "status (fst (reservation_create 100 ada example_store)) = 200"
    using example_chain example_reserved i(3) by simp
  from t have "reserved example_store 2 = 0 \<and> 1 \<le> Capacity bravo \<longrightarrow>
      reserved (snd (reservation_create 100 ada example_store)) 2 = 1"
    by blast
  then have b: "reserved (snd (reservation_create 100 ada example_store)) 2 = 1"
    using example_reserved i(3) by simp
  show ?thesis
    by (intro conjI ada_valid example_keys m i example_chain example_reserved a b)
qed

text \<open>
  With the airplane stored but the itinerary gone, a request that finds room has its row
  inserted before the response is built, and is then answered 500: the row stays.
\<close>

lemma booking_dangling_itinerary:
  assumes "reservationValidationConstraints b = Inr (pn, k)"
    and "primary_keys st"
    and "f \<in> set (Flights st)" and "flight.ID f = k"
    and "ap \<in> set (Airplanes st)" and "airplane.ID ap = flight.AirplaneID f"
    and "flight.ItineraryID f \<notin> itinerary.ID ` set (Itineraries st)"
    and "int (reserved st k) < Capacity ap"
  shows "reservation_create now b st =
           (Response 500 (error_body ''Failed to create reservation.''),
            st\<lparr>Reservations := Reservations st @
                 [\<lparr>reservation.ID = next_ID (map reservation.ID (Reservations st)),
                   PassengerName = pn, FlightID = k, createdAt = now, updatedAt = now\<rparr>]\<rparr>)"
proof -
  have d: "distinct (map flight.ID (Flights st))" "distinct (map airplane.ID (Airplanes st))"
    using assms(2) by (simp_all add: primary_keys_def)
  have f: "find (\<lambda>r. flight.ID r = k) (Flights st) = Some f"
    using find_key_distinct [OF d(1) assms(3)] assms(4) by simp
  have "find (\<lambda>r. airplane.ID r = airplane.ID ap) (Airplanes st) = Some ap"
    using d(2) assms(5) by (rule find_key_distinct)
  then have ap: "Airplane_findOne st (flight.AirplaneID f) = Some ap"
    using assms(6) by (simp add: Airplane_findOne_def)
  have "Itinerary_findOne st (flight.ItineraryID f) = None"
    using assms(7) by (simp add: Itinerary_findOne_def find_key_absent)
  then have "created_reservation_json r (include_flight st f) = None" for r
    by (simp add: created_reservation_json_def include_flight_def)
  then show ?thesis
    using assms(8)
    by (simp add: booking_with_airplane [OF assms(1) f ap] Reservation_create_store)
qed

section \<open>The confirmation is the stored chain\<close>

text \<open>
  Claim C4. When a booking succeeds, the \<open>Flight\<close> of the reservation in the response
  is the specification's nested flight record filled from the rows of Flights,
  Itineraries, Airports and Airplanes that the flight's foreign keys lead to in the store
  at booking time. The listing for the flight, before and after the booking, answers
  with the specification's reservation record for every reservation bound to the flight,
  in row order, each with that same nested flight record: all of them are built from the
  one flight, itinerary, airports and airplane.
\<close>

theorem denormalization_fidelity:
  assumes "reservationValidationConstraints b = Inr (pn, k)"
    and "primary_keys st" and "flight_chain st f it oa da ap" and "flight.ID f = k"
    and "r = \<lparr>reservation.ID = next_ID (map reservation.ID (Reservations st)),
              PassengerName = pn, FlightID = k, createdAt = now, updatedAt = now\<rparr>"
  shows "(int (reserved st k) < Capacity ap \<longrightarrow>
            status (fst (reservation_create now b st)) = 200 \<and>
            Option.bind (member ''reservation'' (body (fst (reservation_create now b st))))
              (member ''Flight'') = Some (spec_flight_record f it oa da ap) \<and>
            snd (reservation_create now b st) = st\<lparr>Reservations := Reservations st @ [r]\<rparr>) \<and>
         reservation_flight k st =
           Response 200
             (Obj [(''message'', Str ''Reservations retrieved successfully''),
                   (''reservations'',
                    Arr (map (\<lambda>x. spec_reservation_record x f it oa da ap)
                           (filter (\<lambda>x. reservation.FlightID x = k) (Reservations st))))]) \<and>
         reservation_flight k (st\<lparr>Reservations := Reservations st @ [r]\<rparr>) =
           Response 200
             (Obj [(''message'', Str ''Reservations retrieved successfully''),
                   (''reservations'',
                    Arr (map (\<lambda>x. spec_reservation_record x f it oa da ap)
                           (filter (\<lambda>x. reservation.FlightID x = k) (Reservations st) @ [r])))])"
proof -
  have v: "1 \<le> flight.ID f" using validated_booking [OF assms(1)] assms(4) by simp
  have booked: "int (reserved st k) < Capacity ap \<longrightarrow>
            status (fst (reservation_create now b st)) = 200 \<and>
            Option.bind (member ''reservation'' (body (fst (reservation_create now b st))))
              (member ''Flight'') = Some (spec_flight_record f it oa da ap) \<and>
            snd (reservation_create now b st) = st\<lparr>Reservations := Reservations st @ [r]\<rparr>"
    using booking_succeeds [OF assms(1,2,3,4), of now] assms(5) by simp
  have pk: "primary_keys (st\<lparr>Reservations := Reservations st @ [r]\<rparr>)"
    using primary_keys_Reservation_create [OF assms(2), of now pn k] assms(5)
    by (simp add: Reservation_create_store)
  have ch: "flight_chain (st\<lparr>Reservations := Reservations st @ [r]\<rparr>) f it oa da ap"
    using assms(3) by (simp add: flight_chain_Reservations)
  have before: "reservation_flight k st =
           Response 200
             (Obj [(''message'', Str ''Reservations retrieved successfully''),
                   (''reservations'',
                    Arr (map (\<lambda>x. spec_reservation_record x f it oa da ap)
                           (filter (\<lambda>x. reservation.FlightID x = k) (Reservations st))))])"
    using listing_chain [OF assms(2,3) v] assms(4) by simp
  have after: "reservation_flight k (st\<lparr>Reservations := Reservations st @ [r]\<rparr>) =
           Response 200
             (Obj [(''message'', Str ''Reservations retrieved successfully''),
                   (''reservations'',
                    Arr (map (\<lambda>x. spec_reservation_record x f it oa da ap)
                           (filter (\<lambda>x. reservation.FlightID x = k) (Reservations st) @ [r])))])"
    using listing_chain [OF pk ch v] assms(4,5) by simp
  show ?thesis using booked before after by blast
qed

theorem denormalization_fidelity_witness:
  "reservationValidationConstraints ada = Inr (''Ada'', 2) \<and>
   primary_keys example_store \<and>
   flight_chain example_store flight2 transatlantic heathrow kennedy bravo \<and>
   flight.ID flight2 = 2 \<and> int (reserved example_store 2) < Capacity bravo \<and>
   status (fst (reservation_create 100 ada example_store)) = 200 \<and>
   Option.bind (member ''reservation'' (body (fst (reservation_create 100 ada example_store))))
     (member ''Flight'') =
     Some (spec_flight_record flight2 transatlantic heathrow kennedy bravo) \<and>
   snd (reservation_create 100 ada example_store) = booked_store \<and>
   reservation_flight 2 booked_store =
     Response 200
       (Obj [(''message'', Str ''Reservations retrieved successfully''),
             (''reservations'',
              Arr [spec_reservation_record ada_row flight2 transatlantic heathrow kennedy
                     bravo])])"
proof -
  have i: "flight.ID flight2 = 2" by (simp add: flight2_def)
  have c: "int (reserved example_store 2) < Capacity bravo"
    by (simp add: example_reserved bravo_def)
  have r: "ada_row = \<lparr>reservation.ID = next_ID (map reservation.ID (Reservations example_store)),
              PassengerName = ''Ada'', FlightID = 2, createdAt = 100, updatedAt = 100\<rparr>"
    by (simp add: ada_row_def example_next_ID)
  have e: "example_store\<lparr>Reservations := Reservations example_store @ [ada_row]\<rparr> = booked_store"
    "filter (\<lambda>x. reservation.FlightID x = 2) (Reservations example_store) = []"
    by (simp_all add: booked_store_def example_store_def)
  note t = denormalization_fidelity [OF ada_valid example_keys example_chain i r]
  from t c have a: "status (fst (reservation_create 100 ada example_store)) = 200"
    and b: "Option.bind (member ''reservation'' (body (fst (reservation_create 100 ada example_store))))
     (member ''Flight'') =
     Some (spec_flight_record flight2 transatlantic heathrow kennedy bravo)"
    and d: "snd (reservation_create 100 ada example_store) = booked_store"
    unfolding e by blast+
  from t have g: "reservation_flight 2 booked_store =
     Response 200
       (Obj [(''message'', Str ''Reservations retrieved successfully''),
             (''reservations'',
              Arr [spec_reservation_record ada_row flight2 transatlantic heathrow kennedy
                     bravo])])"
    unfolding e by simp
  show ?thesis by (intro conjI ada_valid example_keys example_chain i c a b d g)
qed

section \<open>Cancelling\<close>

text \<open>
  Claim C6. A cancel request whose body is exactly \<open>{ID: k}\<close>, \<open>k\<close> not zero, is
  answered 200 when a Reservation row has the key \<open>k\<close>, and the store afterwards is the
  store before without the rows of that key; it is answered 404 'Reservation not found.'
  with the store unchanged when no row has the key. So the same request sent again after
  a 200 is answered 404. The handler writes nothing but the Reservations table: there is
  no counter to update.
\<close>

theorem cancel_contract:
  assumes "k \<noteq> 0"
  shows "(k \<in> reservation.ID ` set (Reservations st) \<longrightarrow>
            reservation_delete \<lparr>ID = Some k, other_keys = []\<rparr> st =
              (Response 200 (Obj [(''message'', Str ''Reservation deleted successfully.'')]),
               st\<lparr>Reservations := filter (\<lambda>r. reservation.ID r \<noteq> k) (Reservations st)\<rparr>) \<and>
            reservation_delete \<lparr>ID = Some k, other_keys = []\<rparr>
                (snd (reservation_delete \<lparr>ID = Some k, other_keys = []\<rparr> st)) =
              (Response 404 (error_body ''Reservation not found.''),
               snd (reservation_delete \<lparr>ID = Some k, other_keys = []\<rparr> st))) \<and>
         (k \<notin> reservation.ID ` set (Reservations st) \<longrightarrow>
            reservation_delete \<lparr>ID = Some k, other_keys = []\<rparr> st =
              (Response 404 (error_body ''Reservation not found.''), st))"
proof (intro conjI impI)
  assume m: "k \<in> reservation.ID ` set (Reservations st)"
  show "reservation_delete \<lparr>ID = Some k, other_keys = []\<rparr> st =
              (Response 200 (Obj [(''message'', Str ''Reservation deleted successfully.'')]),
               st\<lparr>Reservations := filter (\<lambda>r. reservation.ID r \<noteq> k) (Reservations st)\<rparr>)"
    using cancel_found [OF assms m] .
  have "k \<notin> reservation.ID `
          set (Reservations (st\<lparr>Reservations := filter (\<lambda>r. reservation.ID r \<noteq> k) (Reservations st)\<rparr>))"
    by auto
  from cancel_missing [OF assms this]
  show "reservation_delete \<lparr>ID = Some k, other_keys = []\<rparr>
                (snd (reservation_delete \<lparr>ID = Some k, other_keys = []\<rparr> st)) =
              (Response 404 (error_body ''Reservation not found.''),
               snd (reservation_delete \<lparr>ID = Some k, other_keys = []\<rparr> st))"
    by (simp add: cancel_found [OF assms m])
next
  assume "k \<notin> reservation.ID ` set (Reservations st)"
  then show "reservation_delete \<lparr>ID = Some k, other_keys = []\<rparr> st =
              (Response 404 (error_body ''Reservation not found.''), st)"
    using cancel_missing [OF assms] by simp
qed

theorem cancel_contract_witness:
  "(1::int) \<noteq> 0 \<and> 1 \<in> reservation.ID ` set (Reservations booked_store) \<and>
   reservation_delete \<lparr>ID = Some 1, other_keys = []\<rparr> booked_store =
     (Response 200 (Obj [(''message'', Str ''Reservation deleted successfully.'')]),
      example_store) \<and>
   reservation_delete \<lparr>ID = Some 1, other_keys = []\<rparr> example_store =
     (Response 404 (error_body ''Reservation not found.''), example_store)"
proof -
  have z: "(1::int) \<noteq> 0" by simp
  have m: "1 \<in> reservation.ID ` set (Reservations booked_store)"
    by (simp add: booked_store_def ada_row_def)
  have e: "booked_store\<lparr>Reservations :=
             filter (\<lambda>r. reservation.ID r \<noteq> 1) (Reservations booked_store)\<rparr> = example_store"
    by (simp add: booked_store_def ada_row_def example_store_def)
  note t = cancel_contract [OF z, of booked_store]
  from t m have a: "reservation_delete \<lparr>ID = Some 1, other_keys = []\<rparr> booked_store =
     (Response 200 (Obj [(''message'', Str ''Reservation deleted successfully.'')]),
      example_store)"
    unfolding e by blast
  from t m have "reservation_delete \<lparr>ID = Some 1, other_keys = []\<rparr>
                (snd (reservation_delete \<lparr>ID = Some 1, other_keys = []\<rparr> booked_store)) =
              (Response 404 (error_body ''Reservation not found.''),
               snd (reservation_delete \<lparr>ID = Some 1, other_keys = []\<rparr> booked_store))"
    by blast
  then have b: "reservation_delete \<lparr>ID = Some 1, other_keys = []\<rparr> example_store =
     (Response 404 (error_body ''Reservation not found.''), example_store)"
    by (simp add: a)
  show ?thesis by (intro conjI z m a b)
qed

section \<open>What a cancellation leaves alone\<close>

text \<open>
  Claim C10. When a cancel request is answered 200 for the key of the stored row \<open>r\<close>,
  the Reservations table afterwards is the table before with \<open>r\<close> removed and every
  other row kept, in order; the Airports, Itineraries, Airplanes and Flights tables are
  the same as before.
\<close>

theorem cancel_frame:
  assumes "k \<noteq> 0" and "distinct (map reservation.ID (Reservations st))"
    and "r \<in> set (Reservations st)" and "reservation.ID r = k"
    and "st' = snd (reservation_delete \<lparr>ID = Some k, other_keys = []\<rparr> st)"
  shows "status (fst (reservation_delete \<lparr>ID = Some k, other_keys = []\<rparr> st)) = 200 \<and>
         Reservations st' = remove1 r (Reservations st) \<and>
         mset (Reservations st) = add_mset r (mset (Reservations st')) \<and>
         r \<notin> set (Reservations st') \<and>
         Airports st' = Airports st \<and> Itineraries st' = Itineraries st \<and>
         Airplanes st' = Airplanes st \<and> Flights st' = Flights st"
proof -
  have m: "k \<in> reservation.ID ` set (Reservations st)" using assms(3,4) by auto
  have "filter (\<lambda>x. reservation.ID x \<noteq> reservation.ID r) (Reservations st) =
          remove1 r (Reservations st)"
    using assms(2,3) by (rule filter_key_remove1)
  then have s: "st' = st\<lparr>Reservations := remove1 r (Reservations st)\<rparr>"
    using cancel_found [OF assms(1) m] assms(4,5) by simp
  have d: "distinct (Reservations st)" using assms(2) by (simp add: distinct_map)
  have "status (fst (reservation_delete \<lparr>ID = Some k, other_keys = []\<rparr> st)) = 200"
    by (simp add: cancel_found [OF assms(1) m])
  then show ?thesis using assms(3) d by (simp add: s)
qed

theorem cancel_frame_witness:
  "(1::int) \<noteq> 0 \<and> distinct (map reservation.ID (Reservations booked_store)) \<and>
   ada_row \<in> set (Reservations booked_store) \<and> reservation.ID ada_row = 1 \<and>
   Reservations (snd (reservation_delete \<lparr>ID = Some 1, other_keys = []\<rparr> booked_store)) =
     remove1 ada_row (Reservations booked_store) \<and>
   Flights (snd (reservation_delete \<lparr>ID = Some 1, other_keys = []\<rparr> booked_store)) =
     Flights booked_store"
proof -
  have z: "(1::int) \<noteq> 0" by simp
  have d: "distinct (map reservation.ID (Reservations booked_store))"
    by (simp add: booked_store_def)
  have m: "ada_row \<in> set (Reservations booked_store)"
    by (simp add: booked_store_def)
  have i: "reservation.ID ada_row = 1" by (simp add: ada_row_def)
  note t = cancel_frame [OF z d m i refl]
  from t have a: "Reservations (snd (reservation_delete \<lparr>ID = Some 1, other_keys = []\<rparr>
      booked_store)) = remove1 ada_row (Reservations booked_store)"
    by blast
  from t have b: "Flights (snd (reservation_delete \<lparr>ID = Some 1, other_keys = []\<rparr>
      booked_store)) = Flights booked_store"
    by blast
  show ?thesis by (intro conjI z d m i a b)
qed

section \<open>Cancel, then book again\<close>

text \<open>
  Claim C5. On a flight with a complete chain whose airplane has Capacity 1 and to which
  no reservation is bound, booking for one passenger, cancelling the row that booking
  created, and booking for a second passenger are answered 200, 200 and 200. After the
  first booking the flight has the first passenger's row and is full: a booking sent
  then is answered 409 'The flight is already full.'. After the cancellation the flight
  has no row, and at the end exactly one, the second passenger's, and is full again:
  admission counts the rows each time.
\<close>

theorem cancel_then_rebook:
  assumes "reservationValidationConstraints bA = Inr (pa, k)"
    and "reservationValidationConstraints bB = Inr (pb, k)"
    and "primary_keys st" and "flight_chain st f it oa da ap" and "flight.ID f = k"
    and "Capacity ap = 1" and "reserved st k = 0"
    and "\<forall>r \<in> set (Reservations st). 1 \<le> reservation.ID r"
    and "rid = next_ID (map reservation.ID (Reservations st))"
    and "s1 = snd (reservation_create t1 bA st)"
    and "s2 = snd (reservation_delete \<lparr>ID = Some rid, other_keys = []\<rparr> s1)"
    and "s3 = snd (reservation_create t3 bB s2)"
  shows "status (fst (reservation_create t1 bA st)) = 200 \<and>
         filter (\<lambda>r. reservation.FlightID r = k) (Reservations s1) =
           [\<lparr>reservation.ID = rid, PassengerName = pa, FlightID = k,
             createdAt = t1, updatedAt = t1\<rparr>] \<and>
         reservation_create t2 bB s1 =
           (Response 409 (error_body ''The flight is already full.''), s1) \<and>
         status (fst (reservation_delete \<lparr>ID = Some rid, other_keys = []\<rparr> s1)) = 200 \<and>
         filter (\<lambda>r. reservation.FlightID r = k) (Reservations s2) = [] \<and>
         status (fst (reservation_create t3 bB s2)) = 200 \<and>
         filter (\<lambda>r. reservation.FlightID r = k) (Reservations s3) =
           [\<lparr>reservation.ID = rid, PassengerName = pb, FlightID = k,
             createdAt = t3, updatedAt = t3\<rparr>] \<and>
         reservation_create t4 bA s3 =
           (Response 409 (error_body ''The flight is already full.''), s3)"
proof -
  have none: "filter (\<lambda>r. reservation.FlightID r = k) (Reservations st) = []"
    using assms(7) by (simp add: reserved_def)
  have room: "int (reserved st k) < Capacity ap" using assms(6,7) by simp
  define rA where "rA = \<lparr>reservation.ID = rid, PassengerName = pa, FlightID = k,
                          createdAt = t1, updatedAt = t1\<rparr>"
  define rB where "rB = \<lparr>reservation.ID = rid, PassengerName = pb, FlightID = k,
                          createdAt = t3, updatedAt = t3\<rparr>"
  note bookA = booking_succeeds [OF assms(1,3,4,5) room, of t1]
  note bookB = booking_succeeds [OF assms(2,3,4,5) room, of t3]
  have s1: "s1 = st\<lparr>Reservations := Reservations st @ [rA]\<rparr>"
    using bookA(3) assms(9,10) by (simp add: rA_def)
  have pk1: "primary_keys s1"
    using primary_keys_Reservation_create [OF assms(3), of t1 pa k] assms(9)
    by (simp add: s1 rA_def Reservation_create_store)
  have ch1: "flight_chain s1 f it oa da ap"
    using assms(4) by (simp add: s1 flight_chain_Reservations)
  have full1: "\<not> int (reserved s1 k) < Capacity ap"
    using assms(6,7) by (simp add: s1 reserved_def rA_def)
  have pos: "rid \<noteq> 0"
    using next_ID_positive [of "map reservation.ID (Reservations st)"] assms(8,9) by auto
  have old: "\<forall>r \<in> set (Reservations st). reservation.ID r \<noteq> rid"
    using next_ID_fresh [of "map reservation.ID (Reservations st)"] assms(9) by force
  then have keep: "filter (\<lambda>r. reservation.ID r \<noteq> rid) (Reservations st) = Reservations st"
    by (simp add: filter_id_conv)
  have "rid \<in> reservation.ID ` set (Reservations s1)"
    by (simp add: s1 rA_def)
  from cancel_found [OF pos this]
  have c2: "reservation_delete \<lparr>ID = Some rid, other_keys = []\<rparr> s1 =
              (Response 200 (Obj [(''message'', Str ''Reservation deleted successfully.'')]), st)"
    by (simp add: s1 keep rA_def)
  then have s2: "s2 = st" using assms(11) by simp
  have s3: "s3 = st\<lparr>Reservations := Reservations st @ [rB]\<rparr>"
    using bookB(3) assms(9,12) s2 by (simp add: rB_def)
  have pk3: "primary_keys s3"
    using primary_keys_Reservation_create [OF assms(3), of t3 pb k] assms(9)
    by (simp add: s3 rB_def Reservation_create_store)
  have ch3: "flight_chain s3 f it oa da ap"
    using assms(4) by (simp add: s3 flight_chain_Reservations)
  have full3: "\<not> int (reserved s3 k) < Capacity ap"
    using assms(6,7) by (simp add: s3 reserved_def rB_def)
  have a: "status (fst (reservation_create t1 bA st)) = 200" by (rule bookA(1))
  have b: "filter (\<lambda>r. reservation.FlightID r = k) (Reservations s1) = [rA]"
    by (simp add: s1 none rA_def)
  have b': "reservation_create t2 bB s1 =
              (Response 409 (error_body ''The flight is already full.''), s1)"
    using assms(2) pk1 ch1 assms(5) full1 by (rule booking_full)
  have c: "status (fst (reservation_delete \<lparr>ID = Some rid, other_keys = []\<rparr> s1)) = 200"
    by (simp add: c2)
  have d: "filter (\<lambda>r. reservation.FlightID r = k) (Reservations s2) = []"
    by (simp add: s2 none)
  have e: "status (fst (reservation_create t3 bB s2)) = 200" using bookB(1) by (simp add: s2)
  have g: "filter (\<lambda>r. reservation.FlightID r = k) (Reservations s3) = [rB]"
    by (simp add: s3 none rB_def)
  have g': "reservation_create t4 bA s3 =
              (Response 409 (error_body ''The flight is already full.''), s3)"
    using assms(1) pk3 ch3 assms(5) full3 by (rule booking_full)
  show ?thesis using a b b' c d e g g' unfolding rA_def rB_def by blast
qed

theorem cancel_then_rebook_witness:
  "reservationValidationConstraints ada = Inr (''Ada'', 2) \<and>
   reservationValidationConstraints bob = Inr (''Bob'', 2) \<and>
   primary_keys example_store \<and>
   flight_chain example_store flight2 transatlantic heathrow kennedy bravo \<and>
   flight.ID flight2 = 2 \<and> Capacity bravo = 1 \<and> reserved example_store 2 = 0 \<and>
   status (fst (reservation_create 100 ada example_store)) = 200 \<and>
   reservation_create 200 bob (snd (reservation_create 100 ada example_store)) =
     (Response 409 (error_body ''The flight is already full.''),
      snd (reservation_create 100 ada example_store)) \<and>
   status (fst (reservation_delete \<lparr>ID = Some 1, other_keys = []\<rparr>
                  (snd (reservation_create 100 ada example_store)))) = 200 \<and>
   status (fst (reservation_create 300 bob
                  (snd (reservation_delete \<lparr>ID = Some 1, other_keys = []\<rparr>
                          (snd (reservation_create 100 ada example_store)))))) = 200 \<and>
   filter (\<lambda>r. reservation.FlightID r = 2)
     (Reservations
        (snd (reservation_create 300 bob
                (snd (reservation_delete \<lparr>ID = Some 1, other_keys = []\<rparr>
                        (snd (reservation_create 100 ada example_store))))))) =
     [\<lparr>reservation.ID = 1, PassengerName = ''Bob'', FlightID = 2,
       createdAt = 300, updatedAt = 300\<rparr>]"
proof -
  have i: "flight.ID flight2 = 2" "Capacity bravo = 1"
    by (simp_all add: flight2_def bravo_def)
  have p: "\<forall>r \<in> set (Reservations example_store). 1 \<le> reservation.ID r"
    by (simp add: example_store_def)
  note t = cancel_then_rebook [OF ada_valid bob_valid example_keys example_chain i
      example_reserved p example_next_ID [symmetric] refl refl refl, of 100 200 300 400]
  from t have a: "status (fst (reservation_create 100 ada example_store)) = 200"
    by blast
  from t have a': "reservation_create 200 bob (snd (reservation_create 100 ada example_store)) =
     (Response 409 (error_body ''The flight is already full.''),
      snd (reservation_create 100 ada example_store))"
    by blast
  from t have b: "status (fst (reservation_delete \<lparr>ID = Some 1, other_keys = []\<rparr>
                  (snd (reservation_create 100 ada example_store)))) = 200"
    by blast
  from t have c: "status (fst (reservation_create 300 bob
                  (snd (reservation_delete \<lparr>ID = Some 1, other_keys = []\<rparr>
                          (snd (reservation_create 100 ada example_store)))))) = 200"
    by blast
  from t have d: "filter (\<lambda>r. reservation.FlightID r = 2)
     (Reservations
        (snd (reservation_create 300 bob
                (snd (reservation_delete \<lparr>ID = Some 1, other_keys = []\<rparr>
                        (snd (reservation_create 100 ada example_store))))))) =
     [\<lparr>reservation.ID = 1, PassengerName = ''Bob'', FlightID = 2,
       createdAt = 300, updatedAt = 300\<rparr>]"
    by blast
  show ?thesis
    by (intro conjI ada_valid bob_valid example_keys example_chain i example_reserved a a' b c d)
qed

section \<open>Creating a flight\<close>

lemma digits_9: "is_int_string ''9'' \<and> int_string_value ''9'' = 9"
  by (simp add: is_int_string_def int_string_value_def digits_value_def is_digit_def)

lemma digits_10: "is_int_string ''10'' \<and> int_string_value ''10'' = 10"
  by (simp add: is_int_string_def int_string_value_def digits_value_def is_digit_def)

lemma string_flight_valid:
  "flightValidationConstraints string_flight = Inr (1, Text ''10'', Text ''9'', 2)"
  by (simp add: flightValidationConstraints_def string_flight_def check_int_def
        check_scalar_def digits_9 digits_10)

text \<open>
  With both times given as numbers the handler does what the claim says, its checks
  taken in order: an unknown itinerary and then an unknown airplane are answered 409, an
  arrival not after the departure 422, the store unchanged each time, and a row is
  created exactly when both rows exist and the arrival is after the departure.
\<close>

lemma flight_creation_number_times:
  assumes "flightValidationConstraints b = Inr (i, Num d, Num a, p)"
  shows "(i \<notin> itinerary.ID ` set (Itineraries st) \<longrightarrow>
            flight_create moment now b st =
              (Response 409 (error_body ''Invalid itinerary ID.''), st)) \<and>
         (i \<in> itinerary.ID ` set (Itineraries st) \<and> p \<notin> airplane.ID ` set (Airplanes st) \<longrightarrow>
            flight_create moment now b st =
              (Response 409 (error_body ''Invalid airplane ID.''), st)) \<and>
         (i \<in> itinerary.ID ` set (Itineraries st) \<and> p \<in> airplane.ID ` set (Airplanes st) \<and>
          a \<le> d \<longrightarrow>
            flight_create moment now b st =
              (Response 422 (error_body ''Arrival time must be after departure time.''), st)) \<and>
         (i \<in> itinerary.ID ` set (Itineraries st) \<and> p \<in> airplane.ID ` set (Airplanes st) \<and>
          d < a \<longrightarrow>
            status (fst (flight_create moment now b st)) = 200 \<and>
            snd (flight_create moment now b st) =
              st\<lparr>Flights := Flights st @
                   [\<lparr>flight.ID = next_ID (map flight.ID (Flights st)), ItineraryID = i,
                     DepartureTime = new_Date d, ArrivalTime = new_Date a, AirplaneID = p,
                     createdAt = now, updatedAt = now\<rparr>]\<rparr>) \<and>
         ((Flights (snd (flight_create moment now b st)) \<noteq> Flights st) =
            (i \<in> itinerary.ID ` set (Itineraries st) \<and> p \<in> airplane.ID ` set (Airplanes st) \<and>
             d < a))"
proof -
  have 1: "i \<notin> itinerary.ID ` set (Itineraries st) \<longrightarrow>
            flight_create moment now b st =
              (Response 409 (error_body ''Invalid itinerary ID.''), st)"
    using assms by (simp add: flight_create_def Itinerary_findOne_def find_key_absent)
  have 2: "i \<in> itinerary.ID ` set (Itineraries st) \<and> p \<notin> airplane.ID ` set (Airplanes st) \<longrightarrow>
            flight_create moment now b st =
              (Response 409 (error_body ''Invalid airplane ID.''), st)"
  proof
    assume h: "i \<in> itinerary.ID ` set (Itineraries st) \<and> p \<notin> airplane.ID ` set (Airplanes st)"
    then obtain x where "find (\<lambda>r. itinerary.ID r = i) (Itineraries st) = Some x"
      using find_key_present [of i itinerary.ID "Itineraries st"] by blast
    then show "flight_create moment now b st =
                 (Response 409 (error_body ''Invalid airplane ID.''), st)"
      using assms h
      by (simp add: flight_create_def Itinerary_findOne_def Airplane_findOne_def find_key_absent)
  qed
  have both: "i \<in> itinerary.ID ` set (Itineraries st) \<and> p \<in> airplane.ID ` set (Airplanes st) \<Longrightarrow>
      (a \<le> d \<longrightarrow> flight_create moment now b st =
         (Response 422 (error_body ''Arrival time must be after departure time.''), st)) \<and>
      (d < a \<longrightarrow> status (fst (flight_create moment now b st)) = 200 \<and>
         snd (flight_create moment now b st) =
           st\<lparr>Flights := Flights st @
                [\<lparr>flight.ID = next_ID (map flight.ID (Flights st)), ItineraryID = i,
                  DepartureTime = new_Date d, ArrivalTime = new_Date a, AirplaneID = p,
                  createdAt = now, updatedAt = now\<rparr>]\<rparr>)"
  proof -
    assume h: "i \<in> itinerary.ID ` set (Itineraries st) \<and> p \<in> airplane.ID ` set (Airplanes st)"
    obtain x where x: "find (\<lambda>r. itinerary.ID r = i) (Itineraries st) = Some x"
      using find_key_present [of i itinerary.ID "Itineraries st"] h by blast
    obtain y where y: "find (\<lambda>r. airplane.ID r = p) (Airplanes st) = Some y"
      using find_key_present [of p airplane.ID "Airplanes st"] h by blast
    show ?thesis
      using assms x y
      by (simp add: flight_create_def Itinerary_findOne_def Airplane_findOne_def
            Flights_create_def js_le_def to_number_def DATE_column_def)
  qed
  have 3: "i \<in> itinerary.ID ` set (Itineraries st) \<and> p \<in> airplane.ID ` set (Airplanes st) \<and>
          a \<le> d \<longrightarrow>
            flight_create moment now b st =
              (Response 422 (error_body ''Arrival time must be after departure time.''), st)"
    using both by simp
  have 4: "i \<in> itinerary.ID ` set (Itineraries st) \<and> p \<in> airplane.ID ` set (Airplanes st) \<and>
          d < a \<longrightarrow>
            status (fst (flight_create moment now b st)) = 200 \<and>
            snd (flight_create moment now b st) =
              st\<lparr>Flights := Flights st @
                   [\<lparr>flight.ID = next_ID (map flight.ID (Flights st)), ItineraryID = i,
                     DepartureTime = new_Date d, ArrivalTime = new_Date a, AirplaneID = p,
                     createdAt = now, updatedAt = now\<rparr>]\<rparr>"
    using both by simp
  have 5: "(Flights (snd (flight_create moment now b st)) \<noteq> Flights st) =
            (i \<in> itinerary.ID ` set (Itineraries st) \<and> p \<in> airplane.ID ` set (Airplanes st) \<and>
             d < a)"
  proof (cases "i \<in> itinerary.ID ` set (Itineraries st) \<and> p \<in> airplane.ID ` set (Airplanes st)")
    case True
    then show ?thesis using both by (cases "d < a") auto
  next
    case False
    then show ?thesis using 1 2 by auto
  qed
  show ?thesis using 1 2 3 4 5 by blast
qed

text \<open>
  Claim C7. The claim fails on the code where the two times are strings of digits,
  which the validators accept. The request \<open>string_flight\<close> names a stored itinerary and a
  stored airplane, departs at '10' and arrives at '9'. The validators let it pass and
  JavaScript reads the two strings as the numbers 10 and 9, but line 517 compares them as
  strings, and as a string '9' is not below '10'. So the request is not answered 422: it
  is answered 200, and a Flights row is written with whatever dates the two strings
  parse to.
\<close>

theorem digit_string_times_create_flight:
  "flightValidationConstraints string_flight = Inr (1, Text ''10'', Text ''9'', 2) \<and>
   to_number (Text ''9'') = Some 9 \<and> to_number (Text ''10'') = Some 10 \<and>
   js_le (Text ''9'') (Text ''10'') = False \<and>
   1 \<in> itinerary.ID ` set (Itineraries example_store) \<and>
   2 \<in> airplane.ID ` set (Airplanes example_store) \<and>
   status (fst (flight_create moment 100 string_flight example_store)) = 200 \<and>
   Flights (snd (flight_create moment 100 string_flight example_store)) =
     [flight1, flight2, flight3,
      \<lparr>flight.ID = 4, ItineraryID = 1, DepartureTime = moment ''10'',
        ArrivalTime = moment ''9'', AirplaneID = 2, createdAt = 100, updatedAt = 100\<rparr>]"
proof -
  have n: "to_number (Text ''9'') = Some 9" "to_number (Text ''10'') = Some 10"
    by (simp_all add: to_number_def digits_9 digits_10)
  have le: "js_le (Text ''9'') (Text ''10'') = False"
    by (simp add: js_le_def)
  have i: "1 \<in> itinerary.ID ` set (Itineraries example_store)"
    by (simp add: example_store_def transatlantic_def)
  have p: "2 \<in> airplane.ID ` set (Airplanes example_store)"
    by (simp add: example_store_def alpha_def bravo_def)
  have x: "Itinerary_findOne example_store 1 = Some transatlantic"
    by (simp add: Itinerary_findOne_def example_store_def transatlantic_def)
  have y: "Airplane_findOne example_store 2 = Some bravo"
    by (simp add: Airplane_findOne_def example_store_def alpha_def bravo_def)
  have k: "next_ID (map flight.ID (Flights example_store)) = 4"
    by (simp add: next_ID_def example_store_def flight1_def flight2_def flight3_def)
  have a: "status (fst (flight_create moment 100 string_flight example_store)) = 200"
    by (simp add: flight_create_def string_flight_valid x y le Flights_create_def)
  have "Flights (snd (flight_create moment 100 string_flight example_store)) =
          Flights example_store @
            [\<lparr>flight.ID = next_ID (map flight.ID (Flights example_store)), ItineraryID = 1,
              DepartureTime = moment ''10'', ArrivalTime = moment ''9'', AirplaneID = 2,
              createdAt = 100, updatedAt = 100\<rparr>]"
    by (simp add: flight_create_def string_flight_valid x y le Flights_create_def
          DATE_column_def)
  then have b: "Flights (snd (flight_create moment 100 string_flight example_store)) =
     [flight1, flight2, flight3,
      \<lparr>flight.ID = 4, ItineraryID = 1, DepartureTime = moment ''10'',
        ArrivalTime = moment ''9'', AirplaneID = 2, createdAt = 100, updatedAt = 100\<rparr>]"
    by (simp add: k) (simp add: example_store_def)
  show ?thesis by (intro conjI string_flight_valid n le i p a b)
qed

section \<open>Bookings one after the other\<close>

lemma booking_cases:
  obtains (unchanged) "snd (reservation_create now b st) = st"
  | (admitted) pn k f ap where
      "reservationValidationConstraints b = Inr (pn, k)"
      "find (\<lambda>r. flight.ID r = k) (Flights st) = Some f"
      "Airplane_findOne st (flight.AirplaneID f) = Some ap"
      "int (reserved st k) < Capacity ap"
      "snd (reservation_create now b st) = snd (Reservation_create now pn k st)"
proof (cases "reservationValidationConstraints b")
  case (Inl errors)
  then have "snd (reservation_create now b st) = st"
    by (simp add: reservation_create_def)
  then show ?thesis by (rule unchanged)
next
  case (Inr v)
  obtain pn k where v: "v = (pn, k)" by (cases v)
  show ?thesis
  proof (cases "find (\<lambda>r. flight.ID r = k) (Flights st)")
    case None
    then have "snd (reservation_create now b st) = st"
      using Inr v by (simp add: reservation_create_def Flights_findOne_def)
    then show ?thesis by (rule unchanged)
  next
    case (Some f)
    show ?thesis
    proof (cases "Airplane_findOne st (flight.AirplaneID f)")
      case None
      then have "snd (reservation_create now b st) = st"
        using Inr v Some
        by (simp add: reservation_create_def Flights_findOne_def include_flight_def)
      then show ?thesis by (rule unchanged)
    next
      case ap: (Some ap)
      note eq = booking_with_airplane [OF Inr [unfolded v] Some ap, of now]
      show ?thesis
      proof (cases "int (reserved st k) < Capacity ap")
        case True
        then have "snd (reservation_create now b st) = snd (Reservation_create now pn k st)"
          by (simp add: eq split: option.splits)
        with Inr v Some ap True show ?thesis by (intro admitted) auto
      next
        case False
        then have "snd (reservation_create now b st) = st" by (simp add: eq)
        then show ?thesis by (rule unchanged)
      qed
    qed
  qed
qed

lemma reserved_Reservation_create:
  "reserved (snd (Reservation_create now pn k st)) j =
     (if j = k then reserved st k + 1 else reserved st j)"
  by (simp add: reserved_def Reservation_create_store)

lemma capacity_invariant_Reservation_create:
  assumes "primary_keys st" and "capacity_invariant st"
    and "find (\<lambda>r. flight.ID r = k) (Flights st) = Some f"
    and "Airplane_findOne st (flight.AirplaneID f) = Some ap"
    and "int (reserved st k) < Capacity ap"
  shows "capacity_invariant (snd (Reservation_create now pn k st))"
  unfolding capacity_invariant_def
proof (intro ballI impI)
  fix g q
  assume g: "g \<in> set (Flights (snd (Reservation_create now pn k st)))"
    and q: "q \<in> set (Airplanes (snd (Reservation_create now pn k st)))"
    and e: "airplane.ID q = flight.AirplaneID g"
  have g': "g \<in> set (Flights st)" and q': "q \<in> set (Airplanes st)"
    using g q by (simp_all add: Reservation_create_store)
  have old: "int (reserved st (flight.ID g)) \<le> Capacity q"
    using assms(2) g' q' e by (simp add: capacity_invariant_def)
  show "int (reserved (snd (Reservation_create now pn k st)) (flight.ID g)) \<le> Capacity q"
  proof (cases "flight.ID g = k")
    case False
    then show ?thesis using old by (simp add: reserved_Reservation_create)
  next
    case True
    have d: "distinct (map flight.ID (Flights st))" "distinct (map airplane.ID (Airplanes st))"
      using assms(1) by (simp_all add: primary_keys_def)
    have "find (\<lambda>r. flight.ID r = flight.ID g) (Flights st) = Some g"
      using d(1) g' by (rule find_key_distinct)
    then have "g = f" using assms(3) True by simp
    have "find (\<lambda>r. airplane.ID r = airplane.ID q) (Airplanes st) = Some q"
      using d(2) q' by (rule find_key_distinct)
    then have "q = ap" using assms(4) e \<open>g = f\<close> by (simp add: Airplane_findOne_def)
    then show ?thesis using assms(5) True by (simp add: reserved_Reservation_create)
  qed
qed

lemma booking_keeps_invariant:
  assumes "primary_keys st" and "capacity_invariant st"
  shows "primary_keys (snd (reservation_create now b st)) \<and>
         capacity_invariant (snd (reservation_create now b st))"
proof (cases rule: booking_cases [of now b st])
  case unchanged
  then show ?thesis using assms by simp
next
  case (admitted pn k f ap)
  then show ?thesis
    using primary_keys_Reservation_create [OF assms(1), of now pn k]
      capacity_invariant_Reservation_create [OF assms admitted(2,3,4), of now pn]
    by simp
qed

lemma reserved_filter_le:
  "length (filter (\<lambda>x. Q x \<and> P x) xs) \<le> length (filter P xs)"
  by (induction xs) auto

lemma cancel_keeps_invariant:
  assumes "primary_keys st" and "capacity_invariant st"
  shows "primary_keys (snd (reservation_delete b st)) \<and>
         capacity_invariant (snd (reservation_delete b st))"
proof -
  have "snd (reservation_delete b st) = st \<or>
        (\<exists>k. snd (reservation_delete b st) =
           st\<lparr>Reservations := filter (\<lambda>r. reservation.ID r \<noteq> k) (Reservations st)\<rparr>)"
    by (auto simp: reservation_delete_def Reservation_destroy_def split: option.splits)
  then show ?thesis
  proof
    assume "snd (reservation_delete b st) = st"
    then show ?thesis using assms by simp
  next
    assume "\<exists>k. snd (reservation_delete b st) =
           st\<lparr>Reservations := filter (\<lambda>r. reservation.ID r \<noteq> k) (Reservations st)\<rparr>"
    then obtain k where s: "snd (reservation_delete b st) =
           st\<lparr>Reservations := filter (\<lambda>r. reservation.ID r \<noteq> k) (Reservations st)\<rparr>"
      by blast
    have le: "reserved (st\<lparr>Reservations := filter (\<lambda>r. reservation.ID r \<noteq> k) (Reservations st)\<rparr>) j
                \<le> reserved st j" for j
      by (simp add: reserved_def reserved_filter_le)
    have pk: "primary_keys (st\<lparr>Reservations := filter (\<lambda>r. reservation.ID r \<noteq> k) (Reservations st)\<rparr>)"
      using assms(1) by (simp add: primary_keys_def distinct_map_filter)
    have ci: "capacity_invariant (st\<lparr>Reservations := filter (\<lambda>r. reservation.ID r \<noteq> k) (Reservations st)\<rparr>)"
      unfolding capacity_invariant_def
    proof (intro ballI impI)
      fix g q
      assume "g \<in> set (Flights (st\<lparr>Reservations := filter (\<lambda>r. reservation.ID r \<noteq> k) (Reservations st)\<rparr>))"
        and "q \<in> set (Airplanes (st\<lparr>Reservations := filter (\<lambda>r. reservation.ID r \<noteq> k) (Reservations st)\<rparr>))"
        and "airplane.ID q = flight.AirplaneID g"
      then have "int (reserved st (flight.ID g)) \<le> Capacity q"
        using assms(2) by (simp add: capacity_invariant_def)
      then show "int (reserved (st\<lparr>Reservations := filter (\<lambda>r. reservation.ID r \<noteq> k) (Reservations st)\<rparr>)
                   (flight.ID g)) \<le> Capacity q"
        using le [of "flight.ID g"] by linarith
    qed
    show ?thesis using pk ci by (simp add: s)
  qed
qed

lemma serial_Cons:
  "fst (serial ((now, b) # reqs) st) =
     fst (reservation_create now b st) # fst (serial reqs (snd (reservation_create now b st)))"
  "snd (serial ((now, b) # reqs) st) = snd (serial reqs (snd (reservation_create now b st)))"
  by (simp_all add: split_beta)

lemma serial_keeps_invariant:
  "primary_keys st \<Longrightarrow> capacity_invariant st \<Longrightarrow>
     primary_keys (snd (serial reqs st)) \<and> capacity_invariant (snd (serial reqs st))"
proof (induction reqs arbitrary: st)
  case Nil
  then show ?case by simp
next
  case (Cons x reqs)
  obtain now b where x: "x = (now, b)" by (cases x)
  show ?case
    unfolding x serial_Cons
    using Cons.IH booking_keeps_invariant [OF Cons.prems, of now b] by blast
qed

lemma serial_counts:
  assumes "primary_keys st" and "flight_chain st f it oa da ap"
    and "\<forall>(now, b) \<in> set reqs. \<exists>pn. reservationValidationConstraints b = Inr (pn, flight.ID f)"
  shows "map status (take (min (length reqs) (nat (Capacity ap - int (reserved st (flight.ID f)))))
                       (fst (serial reqs st))) =
           replicate (min (length reqs) (nat (Capacity ap - int (reserved st (flight.ID f))))) 200 \<and>
         drop (min (length reqs) (nat (Capacity ap - int (reserved st (flight.ID f)))))
              (fst (serial reqs st)) =
           replicate (length reqs - min (length reqs) (nat (Capacity ap - int (reserved st (flight.ID f)))))
             (Response 409 (error_body ''The flight is already full.'')) \<and>
         reserved (snd (serial reqs st)) (flight.ID f) =
           reserved st (flight.ID f) +
           min (length reqs) (nat (Capacity ap - int (reserved st (flight.ID f))))"
  using assms
proof (induction reqs arbitrary: st)
  case Nil
  then show ?case by simp
next
  case (Cons x reqs)
  obtain now b where x: "x = (now, b)" by (cases x)
  obtain pn where v: "reservationValidationConstraints b = Inr (pn, flight.ID f)"
    using Cons.prems(3) x by auto
  have rest: "\<forall>(now, b) \<in> set reqs. \<exists>pn. reservationValidationConstraints b = Inr (pn, flight.ID f)"
    using Cons.prems(3) by simp
  note eq = booking_with_airplane [OF v chain_lookups(1,5) [OF Cons.prems(1,2)], of now]
  let ?n = "reserved st (flight.ID f)"
  show ?case
  proof (cases "int ?n < Capacity ap")
    case True
    define st' where "st' = snd (Reservation_create now pn (flight.ID f) st)"
    have r: "status (fst (reservation_create now b st)) = 200"
      "snd (reservation_create now b st) = st'"
      using True by (simp_all add: eq created_json_chain [OF Cons.prems(1,2)] st'_def)
    have pk: "primary_keys st'"
      unfolding st'_def using Cons.prems(1) by (rule primary_keys_Reservation_create)
    have ch: "flight_chain st' f it oa da ap"
      using Cons.prems(2) by (simp add: st'_def Reservation_create_store flight_chain_Reservations)
    have n': "reserved st' (flight.ID f) = ?n + 1"
      by (simp add: st'_def reserved_Reservation_create)
    define K where "K = min (length reqs) (nat (Capacity ap - int (reserved st' (flight.ID f))))"
    have c: "nat (Capacity ap - int ?n) = Suc (nat (Capacity ap - int (reserved st' (flight.ID f))))"
      using True n' by simp
    have m: "min (length ((now, b) # reqs)) (nat (Capacity ap - int ?n)) = Suc K"
      by (simp add: c K_def)
    have ih: "map status (take K (fst (serial reqs st'))) = replicate K 200"
      "drop K (fst (serial reqs st')) =
         replicate (length reqs - K) (Response 409 (error_body ''The flight is already full.''))"
      "reserved (snd (serial reqs st')) (flight.ID f) = reserved st' (flight.ID f) + K"
      using Cons.IH [OF pk ch rest] by (simp_all add: K_def)
    show ?thesis
      unfolding x m serial_Cons r(2)
      using ih r(1) by (simp add: n')
  next
    case False
    have r: "reservation_create now b st =
               (Response 409 (error_body ''The flight is already full.''), st)"
      using False by (simp add: eq)
    have m: "nat (Capacity ap - int ?n) = 0" using False by simp
    show ?thesis
      unfolding x serial_Cons r
      using Cons.IH [OF Cons.prems(1,2) rest]
      by (simp add: m replicate_Suc [symmetric] del: replicate_Suc)
  qed
qed


lemma example_invariant: "capacity_invariant example_store"
  by (simp add: capacity_invariant_def reserved_def example_store_def alpha_def bravo_def
        flight1_def flight2_def flight3_def)

text \<open>
  Claim C2, as amended. When booking requests are handled one after the other, each to
  its response before the next starts, the capacity invariant carries over from the
  store before to the store after, whatever the requests are. If they are \<open>N\<close> validated
  requests for one flight with a complete chain, the first \<open>min N (Capacity - existing)\<close>
  are answered 200, all later ones 409 'The flight is already full.', and the flight
  ends with that many more rows.
\<close>

theorem serial_bookings_respect_capacity:
  assumes "primary_keys st" and "capacity_invariant st"
  shows "capacity_invariant (snd (serial reqs st)) \<and>
         (flight_chain st f it oa da ap \<and>
          (\<forall>(now, b) \<in> set reqs.
             \<exists>pn. reservationValidationConstraints b = Inr (pn, flight.ID f)) \<longrightarrow>
            map status
              (take (min (length reqs) (nat (Capacity ap - int (reserved st (flight.ID f)))))
                 (fst (serial reqs st))) =
              replicate (min (length reqs) (nat (Capacity ap - int (reserved st (flight.ID f)))))
                200 \<and>
            drop (min (length reqs) (nat (Capacity ap - int (reserved st (flight.ID f)))))
              (fst (serial reqs st)) =
              replicate
                (length reqs -
                 min (length reqs) (nat (Capacity ap - int (reserved st (flight.ID f)))))
                (Response 409 (error_body ''The flight is already full.'')) \<and>
            reserved (snd (serial reqs st)) (flight.ID f) =
              reserved st (flight.ID f) +
              min (length reqs) (nat (Capacity ap - int (reserved st (flight.ID f)))))"
  using serial_keeps_invariant [OF assms, of reqs] serial_counts [OF assms(1), of f it oa da ap reqs]
  by blast

theorem serial_bookings_respect_capacity_witness:
  "primary_keys example_store \<and> capacity_invariant example_store \<and>
   flight_chain example_store flight2 transatlantic heathrow kennedy bravo \<and>
   reservationValidationConstraints ada = Inr (''Ada'', flight.ID flight2) \<and>
   reservationValidationConstraints bob = Inr (''Bob'', flight.ID flight2) \<and>
   Capacity bravo = 1 \<and> reserved example_store (flight.ID flight2) = 0 \<and>
   capacity_invariant (snd (serial [(100, ada), (200, bob)] example_store)) \<and>
   map status (take 1 (fst (serial [(100, ada), (200, bob)] example_store))) = [200] \<and>
   drop 1 (fst (serial [(100, ada), (200, bob)] example_store)) =
     [Response 409 (error_body ''The flight is already full.'')] \<and>
   reserved (snd (serial [(100, ada), (200, bob)] example_store)) (flight.ID flight2) = 1"
proof -
  have i: "flight.ID flight2 = 2" by (simp add: flight2_def)
  have va: "reservationValidationConstraints ada = Inr (''Ada'', flight.ID flight2)"
    and vb: "reservationValidationConstraints bob = Inr (''Bob'', flight.ID flight2)"
    by (simp_all add: ada_valid bob_valid i)
  have c: "Capacity bravo = 1" by (simp add: bravo_def)
  have n: "reserved example_store (flight.ID flight2) = 0" by (simp add: i example_reserved)
  have all: "\<forall>(now, b) \<in> set [(100, ada), (200, bob)].
               \<exists>pn. reservationValidationConstraints b = Inr (pn, flight.ID flight2)"
    using va vb by simp
  have m: "min (length [(100::int, ada), (200, bob)])
             (nat (Capacity bravo - int (reserved example_store (flight.ID flight2)))) = 1"
    by (simp add: c n)
  note t = serial_bookings_respect_capacity [OF example_keys example_invariant,
      of "[(100, ada), (200, bob)]" flight2 transatlantic heathrow kennedy bravo]
  from t have a: "capacity_invariant (snd (serial [(100, ada), (200, bob)] example_store))"
    by blast
  from t example_chain all
  have "map status
              (take (min (length [(100::int, ada), (200, bob)])
                       (nat (Capacity bravo - int (reserved example_store (flight.ID flight2)))))
                 (fst (serial [(100, ada), (200, bob)] example_store))) =
              replicate (min (length [(100::int, ada), (200, bob)])
                       (nat (Capacity bravo - int (reserved example_store (flight.ID flight2)))))
                200 \<and>
            drop (min (length [(100::int, ada), (200, bob)])
                       (nat (Capacity bravo - int (reserved example_store (flight.ID flight2)))))
              (fst (serial [(100, ada), (200, bob)] example_store)) =
              replicate
                (length [(100::int, ada), (200, bob)] -
                 min (length [(100::int, ada), (200, bob)])
                       (nat (Capacity bravo - int (reserved example_store (flight.ID flight2)))))
                (Response 409 (error_body ''The flight is already full.'')) \<and>
            reserved (snd (serial [(100, ada), (200, bob)] example_store)) (flight.ID flight2) =
              reserved example_store (flight.ID flight2) +
              min (length [(100::int, ada), (200, bob)])
                       (nat (Capacity bravo - int (reserved example_store (flight.ID flight2))))"
    by blast
  then have b: "map status (take 1 (fst (serial [(100, ada), (200, bob)] example_store))) = [200]"
    and d: "drop 1 (fst (serial [(100, ada), (200, bob)] example_store)) =
              [Response 409 (error_body ''The flight is already full.'')]"
    and e: "reserved (snd (serial [(100, ada), (200, bob)] example_store)) (flight.ID flight2) = 1"
    unfolding m by (simp_all add: n)
  show ?thesis
    by (intro conjI example_keys example_invariant example_chain va vb c n a b d e)
qed

section \<open>Bookings that interleave\<close>

text \<open>The handler is its three steps run without interruption.\<close>

lemma booking_steps_handler:
  "interleave [(now, 0), (now, 0), (now, 0)] [Received b] st =
     ([Responded (fst (reservation_create now b st))], snd (reservation_create now b st))"
  by (simp add: reservation_create_def Let_def split: sum.splits option.splits prod.splits)

lemma step_Received:
  assumes "reservationValidationConstraints b = Inr (pn, k)"
    and "primary_keys st" and "flight_chain st f it oa da ap" and "flight.ID f = k"
  shows "booking_step now (Received b) st = (Counting pn k (include_flight st f), st)"
  using assms(1,4) chain_lookups(1) [OF assms(2,3)]
  by (simp add: Flights_findOne_def)

lemma step_Counting:
  assumes "Airplane_findOne st0 (flight.AirplaneID f) = Some ap"
    and "int (reserved st k) < Capacity ap"
  shows "booking_step now (Counting pn k (include_flight st0 f)) st =
           (Inserting pn k (include_flight st0 f), st)"
  using assms by (simp add: include_flight_def Reservation_count_reserved)

lemma step_Inserting:
  assumes "primary_keys st0" and "flight_chain st0 f it oa da ap"
  shows "\<exists>r. booking_step now (Inserting pn k (include_flight st0 f)) st =
           (Responded (Response 200 r), snd (Reservation_create now pn k st))"
  by (simp add: created_json_chain [OF assms] split_beta)

text \<open>
  Two requests for flight 2, whose airplane has one seat, resumed in turn at every
  \<open>await\<close>: both find the flight, both count no reservation, both insert. Both are
  answered 200 and the flight ends with two reservations: the handler's count and insert
  are not one atomic unit.
\<close>

theorem interleaved_bookings_counterexample:
  "capacity_invariant example_store \<and>
   flight.AirplaneID flight2 = airplane.ID bravo \<and> Capacity bravo = 1 \<and>
   map booking_status
     (fst (interleave alternating [Received ada, Received bob] example_store)) =
     [Some 200, Some 200] \<and>
   reserved (snd (interleave alternating [Received ada, Received bob] example_store)) 2 = 2 \<and>
   \<not> capacity_invariant
       (snd (interleave alternating [Received ada, Received bob] example_store))"
proof -
  let ?e = "include_flight example_store flight2"
  let ?s = "snd (Reservation_create 104 ''Ada'' 2 example_store)"
  have i: "flight.AirplaneID flight2 = airplane.ID bravo" "Capacity bravo = 1"
    "flight.ID flight2 = 2"
    by (simp_all add: flight2_def bravo_def)
  have room: "int (reserved example_store 2) < Capacity bravo"
    by (simp add: example_reserved i)
  note ap = chain_lookups(5) [OF example_keys example_chain]
  note s1 = step_Received [OF ada_valid example_keys example_chain i(3)]
  note s2 = step_Received [OF bob_valid example_keys example_chain i(3)]
  note s3 = step_Counting [OF ap room]
  obtain ra where s5: "booking_step 104 (Inserting ''Ada'' 2 ?e) example_store =
      (Responded (Response 200 ra), ?s)"
    using step_Inserting [OF example_keys example_chain] by blast
  obtain rb where s6: "booking_step 105 (Inserting ''Bob'' 2 ?e) ?s =
      (Responded (Response 200 rb), snd (Reservation_create 105 ''Bob'' 2 ?s))"
    using step_Inserting [OF example_keys example_chain] by blast
  have "interleave alternating [Received ada, Received bob] example_store =
          interleave [(101, 1), (102, 0), (103, 1), (104, 0), (105, 1)]
            [Counting ''Ada'' 2 ?e, Received bob] example_store"
    by (simp add: alternating_def s1 del: booking_step.simps)
  also have "\<dots> = interleave [(102, 0), (103, 1), (104, 0), (105, 1)]
            [Counting ''Ada'' 2 ?e, Counting ''Bob'' 2 ?e] example_store"
    by (simp add: s2 del: booking_step.simps)
  also have "\<dots> = interleave [(103, 1), (104, 0), (105, 1)]
            [Inserting ''Ada'' 2 ?e, Counting ''Bob'' 2 ?e] example_store"
    by (simp add: s3 del: booking_step.simps)
  also have "\<dots> = interleave [(104, 0), (105, 1)]
            [Inserting ''Ada'' 2 ?e, Inserting ''Bob'' 2 ?e] example_store"
    by (simp add: s3 del: booking_step.simps)
  also have "\<dots> = interleave [(105, 1)]
            [Responded (Response 200 ra), Inserting ''Bob'' 2 ?e] ?s"
    by (simp add: s5 del: booking_step.simps)
  also have "\<dots> = ([Responded (Response 200 ra), Responded (Response 200 rb)],
                  snd (Reservation_create 105 ''Bob'' 2 ?s))"
    by (simp add: s6 del: booking_step.simps)
  finally have r: "interleave alternating [Received ada, Received bob] example_store =
      ([Responded (Response 200 ra), Responded (Response 200 rb)],
       snd (Reservation_create 105 ''Bob'' 2 ?s))" .
  have a: "map booking_status
     (fst (interleave alternating [Received ada, Received bob] example_store)) =
     [Some 200, Some 200]"
    by (simp add: r)
  have b: "reserved (snd (interleave alternating [Received ada, Received bob] example_store)) 2 = 2"
    by (simp add: r reserved_Reservation_create example_reserved)
  have "\<not> capacity_invariant
            (snd (interleave alternating [Received ada, Received bob] example_store))"
  proof
    assume "capacity_invariant
              (snd (interleave alternating [Received ada, Received bob] example_store))"
    moreover have "flight2 \<in> set (Flights (snd (interleave alternating
        [Received ada, Received bob] example_store)))"
      "bravo \<in> set (Airplanes (snd (interleave alternating
        [Received ada, Received bob] example_store)))"
      by (simp_all add: r Reservation_create_store) (simp_all add: example_store_def)
    ultimately have "int (reserved (snd (interleave alternating
        [Received ada, Received bob] example_store)) (flight.ID flight2)) \<le> Capacity bravo"
      using i(1) unfolding capacity_invariant_def by simp
    then show False by (simp add: i b)
  qed
  then show ?thesis by (intro conjI example_invariant i(1,2) a b)
qed

end
